theory Spec2Isabelle
  imports Main
begin

section \<open>JavaScript values\<close>

text \<open>
  The values that reach \<^verbatim>\<open>server.js\<close> from a parsed JSON body, a parsed query string,
  the token file or the OAuth library.  A number is carried as the text that
  \<^verbatim>\<open>Number.prototype.toString\<close> yields for it (\<^verbatim>\<open>0\<close> and \<^verbatim>\<open>-0\<close> both print as
  \<^verbatim>\<open>0\<close>), which is all the code ever observes of a number: its truthiness and its
  string form.  A string is the list of the bytes of its UTF-8 form; an object is the list
  of its own enumerable members in the order \<^verbatim>\<open>Object.entries\<close> yields them, each key
  occurring once.
\<close>

datatype jsval =
    JUndefined
  | JNull
  | JBool bool
  | JNum string
  | JStr string
  | JArr "jsval list"
  | JObj "(string \<times> jsval) list"

text \<open>\<^verbatim>\<open>!v\<close> is \<open>\<not> truthy v\<close>.\<close>

fun truthy :: "jsval \<Rightarrow> bool" where
  "truthy JUndefined = False"
| "truthy JNull = False"
| "truthy (JBool b) = b"
| "truthy (JNum n) = (n \<noteq> ''0'' \<and> n \<noteq> ''NaN'')"
| "truthy (JStr s) = (s \<noteq> [])"
| "truthy (JArr xs) = True"
| "truthy (JObj ms) = True"

text \<open>\<^verbatim>\<open>a || b\<close>\<close>

definition js_or :: "jsval \<Rightarrow> jsval \<Rightarrow> jsval" where
  "js_or a b = (if truthy a then a else b)"

fun typeof :: "jsval \<Rightarrow> string" where
  "typeof JUndefined = ''undefined''"
| "typeof JNull = ''object''"
| "typeof (JBool b) = ''boolean''"
| "typeof (JNum n) = ''number''"
| "typeof (JStr s) = ''string''"
| "typeof (JArr xs) = ''object''"
| "typeof (JObj ms) = ''object''"

fun isArray :: "jsval \<Rightarrow> bool" where
  "isArray (JArr xs) = True"
| "isArray v = False"

text \<open>
  Reading a member, as a destructuring pattern or \<^verbatim>\<open>v.key\<close> does.  None of the member
  names the program reads is defined on \<^verbatim>\<open>Object.prototype\<close>, \<^verbatim>\<open>Array.prototype\<close> or
  a primitive's wrapper, so anything but an own member of an object reads as
  \<^verbatim>\<open>undefined\<close>.  (Reading a member of \<^verbatim>\<open>null\<close> or \<^verbatim>\<open>undefined\<close> throws; each
  such read in the program is modelled where it stands.)
\<close>

fun get_prop :: "jsval \<Rightarrow> string \<Rightarrow> jsval" where
  "get_prop (JObj ms) key = (case map_of ms key of Some v \<Rightarrow> v | None \<Rightarrow> JUndefined)"
| "get_prop v key = JUndefined"

text \<open>Decimal digits of an index, as a template literal prints it.\<close>

fun show_nat :: "nat \<Rightarrow> string" where
  "show_nat n =
     (if n < 10 then [char_of (48 + n)]
      else show_nat (n div 10) @ [char_of (48 + n mod 10)])"

declare show_nat.simps [simp del]

text \<open>
  The own enumerable members a spread \<^verbatim>\<open>{...v}\<close> copies: the members of an object, the
  indexed elements of an array or of a string (one per character; exact for ASCII
  text), nothing for any other value.
\<close>

fun own_entries :: "jsval \<Rightarrow> (string \<times> jsval) list" where
  "own_entries (JObj ms) = ms"
| "own_entries (JArr xs) = zip (map show_nat [0..<length xs]) xs"
| "own_entries (JStr s) = zip (map show_nat [0..<length s]) (map (\<lambda>c. JStr [c]) s)"
| "own_entries v = []"

text \<open>Defining the data member \<open>key\<close> of an object: replaced in place, or appended.\<close>

fun define_prop :: "(string \<times> jsval) list \<Rightarrow> string \<Rightarrow> jsval \<Rightarrow> (string \<times> jsval) list" where
  "define_prop [] key v = [(key, v)]"
| "define_prop ((k, w) # ms) key v =
     (if k = key then (k, v) # ms else (k, w) # define_prop ms key v)"

text \<open>
  \<^verbatim>\<open>{ ...a, ...b }\<close>: the members of \<open>a\<close>, then those of \<open>b\<close>, a later value replacing an
  earlier one of the same key.  The list keeps the order of definition; the properties
  below read the result by key only.
\<close>

definition spread2 :: "jsval \<Rightarrow> jsval \<Rightarrow> jsval" where
  "spread2 a b =
     JObj (fold (\<lambda>(k, v) ms. define_prop ms k v) (own_entries a @ own_entries b) [])"

text \<open>
  What \<^verbatim>\<open>JSON.parse\<close> reads back from the text \<^verbatim>\<open>JSON.stringify\<close> wrote: a member
  whose value is \<^verbatim>\<open>undefined\<close> is left out, an \<^verbatim>\<open>undefined\<close> array element and a
  number that is not finite are written as \<^verbatim>\<open>null\<close>.
\<close>

fun json_roundtrip :: "jsval \<Rightarrow> jsval" where
  "json_roundtrip (JNum n) =
     (if n = ''NaN'' \<or> n = ''Infinity'' \<or> n = ''-Infinity'' then JNull else JNum n)"
| "json_roundtrip (JArr xs) =
     JArr (map (\<lambda>x. if x = JUndefined then JNull else json_roundtrip x) xs)"
| "json_roundtrip (JObj ms) =
     JObj (map (\<lambda>(k, v). (k, json_roundtrip v)) (filter (\<lambda>(k, v). v \<noteq> JUndefined) ms))"
| "json_roundtrip v = v"

section \<open>Errors, configuration and process state\<close>

text \<open>
  The exceptions the program raises or lets through: its own \<^verbatim>\<open>ValidationError\<close>, a
  plain \<^verbatim>\<open>Error\<close> (also the ones file system and library calls throw), and the
  runtime's \<^verbatim>\<open>TypeError\<close>.  Each carries its message.
\<close>

datatype error = ValidationError string | Error string | TypeError string

fun message :: "error \<Rightarrow> string" where
  "message (ValidationError m) = m"
| "message (Error m) = m"
| "message (TypeError m) = m"

fun instanceof_ValidationError :: "error \<Rightarrow> bool" where
  "instanceof_ValidationError (ValidationError m) = True"
| "instanceof_ValidationError e = False"

text \<open>
  \<^verbatim>\<open>process.env\<close>: a variable is a string or is not set.  \<open>cwd\<close> is the working
  directory that \<^verbatim>\<open>path.resolve("data")\<close> is resolved against.
\<close>

record process_env =
  API_KEY :: "string option"
  FROM_EMAIL :: "string option"
  GOOGLE_CLIENT_ID :: "string option"
  GOOGLE_CLIENT_SECRET :: "string option"
  GOOGLE_REDIRECT_URI :: "string option"
  cwd :: string

text \<open>\<^verbatim>\<open>!X\<close> on an environment variable is \<open>\<not> is_set X\<close>: not set, or the empty string.\<close>

fun is_set :: "string option \<Rightarrow> bool" where
  "is_set None = False"
| "is_set (Some s) = (s \<noteq> [])"

fun env_value :: "string option \<Rightarrow> jsval" where
  "env_value None = JUndefined"
| "env_value (Some s) = JStr s"

definition AUTH_STATE_TTL_MS :: int where
  "AUTH_STATE_TTL_MS = 10 * 60 * 1000"

definition DATA_DIR :: "process_env \<Rightarrow> string" where
  "DATA_DIR env = (if cwd env = ''/'' then ''/data'' else cwd env @ ''/data'')"

definition TOKENS_PATH :: "process_env \<Rightarrow> string" where
  "TOKENS_PATH env = DATA_DIR env @ ''/tokens.json''"

definition PORT :: nat where
  "PORT = 3000"

definition SCOPES :: jsval where
  "SCOPES = JArr [JStr ''https://www.googleapis.com/auth/gmail.send'']"

text \<open>
  Loading the module: \<^verbatim>\<open>process.exit(1)\<close> after the message on the error stream, or the
  server listening on \<open>PORT\<close> once the module's top level has run.
\<close>

datatype process = Exited nat string | Listening nat

definition startup :: "process_env \<Rightarrow> process" where
  "startup env =
     (if \<not> is_set (API_KEY env) then Exited 1 ''Missing API_KEY in .env''
      else if \<not> is_set (FROM_EMAIL env)
        then Exited 1 ''Missing FROM_EMAIL in .env (use your Gmail address or alias)''
      else Listening PORT)"

text \<open>
  The OAuth2 client object of the library: the three constructor arguments and the
  \<^verbatim>\<open>credentials\<close> member, which the library initialises to an empty object.
\<close>

record oauth_client =
  client_id :: string
  client_secret :: string
  redirect_uri :: string
  credentials :: jsval

definition createOAuthClient :: "process_env \<Rightarrow> error + oauth_client" where
  "createOAuthClient env =
     (if \<not> is_set (GOOGLE_CLIENT_ID env) \<or> \<not> is_set (GOOGLE_CLIENT_SECRET env)
          \<or> \<not> is_set (GOOGLE_REDIRECT_URI env)
      then Inl (Error ''Missing Google OAuth env vars'')
      else Inr \<lparr> client_id = the (GOOGLE_CLIENT_ID env),
                 client_secret = the (GOOGLE_CLIENT_SECRET env),
                 redirect_uri = the (GOOGLE_REDIRECT_URI env),
                 credentials = JObj [] \<rparr>)"

text \<open>
  The one-shot command-line script (the second module of the source): it checks the
  OAuth variables at its top level and exits, or goes on to print the consent URL and
  to prompt for the code.
\<close>

datatype script = ScriptExited nat string | Prompting

definition auth_script_startup :: "process_env \<Rightarrow> script" where
  "auth_script_startup env =
     (if \<not> is_set (GOOGLE_CLIENT_ID env) \<or> \<not> is_set (GOOGLE_CLIENT_SECRET env)
          \<or> \<not> is_set (GOOGLE_REDIRECT_URI env)
      then ScriptExited 1
        ''Missing GOOGLE_CLIENT_ID / GOOGLE_CLIENT_SECRET / GOOGLE_REDIRECT_URI in .env''
      else Prompting)"

text \<open>
  The token file as a read finds it: missing, unreadable (\<^verbatim>\<open>readFileSync\<close> or
  \<^verbatim>\<open>JSON.parse\<close> throws an error with this message), or holding a JSON value.
\<close>

datatype token_file = NoFile | Unreadable string | FileJson jsval

text \<open>
  The state the handlers share: the module's \<^verbatim>\<open>cachedAuthClient\<close> and
  \<^verbatim>\<open>oauthStates\<close> (a \<^verbatim>\<open>Map\<close> from state token to its \<^verbatim>\<open>createdAt\<close>, in
  milliseconds), the token file on disk, and the lines written by \<^verbatim>\<open>console.warn\<close>.
\<close>

record state =
  cachedAuthClient :: "oauth_client option"
  oauthStates :: "(string \<times> int) list"
  tokens_file :: token_file
  console :: "string list"

text \<open>\<^verbatim>\<open>Map.prototype.set\<close>, \<^verbatim>\<open>get\<close> and \<^verbatim>\<open>delete\<close> on \<^verbatim>\<open>oauthStates\<close>.\<close>

fun map_set :: "(string \<times> int) list \<Rightarrow> string \<Rightarrow> int \<Rightarrow> (string \<times> int) list" where
  "map_set [] key v = [(key, v)]"
| "map_set ((k, w) # ms) key v =
     (if k = key then (k, v) # ms else (k, w) # map_set ms key v)"

text \<open>
  A key that is not a string (a query parameter parsed to an array or an object) is the
  same value as no key of the map.
\<close>

fun map_get :: "(string \<times> int) list \<Rightarrow> jsval \<Rightarrow> int option" where
  "map_get ms (JStr key) = map_of ms key"
| "map_get ms v = None"

fun map_delete :: "(string \<times> int) list \<Rightarrow> jsval \<Rightarrow> (string \<times> int) list" where
  "map_delete ms (JStr key) = filter (\<lambda>(k, w). k \<noteq> key) ms"
| "map_delete ms v = ms"

text \<open>\<open>now\<close> is the value of \<^verbatim>\<open>Date.now()\<close>.\<close>

fun cleanupStates :: "int \<Rightarrow> (string \<times> int) list \<Rightarrow> (string \<times> int) list" where
  "cleanupStates now [] = []"
| "cleanupStates now ((s, createdAt) # rest) =
     (if now - createdAt > AUTH_STATE_TTL_MS then cleanupStates now rest
      else (s, createdAt) # cleanupStates now rest)"

section \<open>Requests, responses and the OAuth handlers\<close>

text \<open>
  A request as the handlers read it: the parsed query string, the headers (names in
  lower case, as the server stores them) and the parsed JSON body.
\<close>

record request =
  query :: jsval
  raw_headers :: "(string \<times> string) list"
  body :: jsval

definition header :: "request \<Rightarrow> string \<Rightarrow> string option" where
  "header req name = map_of (raw_headers req) name"

text \<open>
  The URL \<^verbatim>\<open>generateAuthUrl\<close> of the library builds, kept as the client and the options
  it was called with.
\<close>

datatype consent_url = ConsentUrl oauth_client jsval

text \<open>
  What a handler sends: \<^verbatim>\<open>res.status(n).json(v)\<close>, \<^verbatim>\<open>res.status(n).send(text)\<close>
  (status 200 when none is set) or \<^verbatim>\<open>res.redirect(url)\<close>, which answers 302.
\<close>

datatype response = Json nat jsval | Text nat string | Redirect nat consent_url

fun status :: "response \<Rightarrow> nat" where
  "status (Json n v) = n"
| "status (Text n t) = n"
| "status (Redirect n u) = n"

text \<open>
  \<^verbatim>\<open>GET /auth/start\<close>.  \<open>now\<close> and \<open>now'\<close> are the two readings of \<^verbatim>\<open>Date.now()\<close>
  (in \<^verbatim>\<open>cleanupStates\<close> and for \<^verbatim>\<open>createdAt\<close>), \<open>random\<close> is
  \<^verbatim>\<open>crypto.randomBytes(16).toString("hex")\<close>.
\<close>

definition auth_start ::
  "process_env \<Rightarrow> int \<Rightarrow> int \<Rightarrow> string \<Rightarrow> state \<Rightarrow> request \<Rightarrow> response \<times> state" where
  "auth_start env now now' random st req =
     (let st1 = st\<lparr> oauthStates := cleanupStates now (oauthStates st) \<rparr>;
          state = random;
          st2 = st1\<lparr> oauthStates := map_set (oauthStates st1) state now' \<rparr>
      in case createOAuthClient env of
           Inl e \<Rightarrow> (Json 500 (JObj [(''error'', JStr (message e))]), st2)
         | Inr oAuth2Client \<Rightarrow>
             (Redirect 302
                (ConsentUrl oAuth2Client
                   (JObj [(''access_type'', JStr ''offline''), (''prompt'', JStr ''consent''),
                          (''scope'', SCOPES), (''state'', JStr state)])),
              st2))"

text \<open>
  \<^verbatim>\<open>String(v)\<close>.  An array joins the strings of its elements with commas, \<^verbatim>\<open>null\<close>
  and \<^verbatim>\<open>undefined\<close> elements as empty strings.  An object prints through
  \<^verbatim>\<open>Object.prototype.toString\<close>, unless it has a member \<^verbatim>\<open>toString\<close> of its own: a
  parsed member is never callable, and the conversion throws.
\<close>

fun js_String :: "jsval \<Rightarrow> error + string"
  and join_elements :: "jsval list \<Rightarrow> error + string" where
  "js_String JUndefined = Inr ''undefined''"
| "js_String JNull = Inr ''null''"
| "js_String (JBool b) = Inr (if b then ''true'' else ''false'')"
| "js_String (JNum n) = Inr n"
| "js_String (JStr s) = Inr s"
| "js_String (JArr xs) = join_elements xs"
| "js_String (JObj ms) =
     (if ''toString'' \<in> fst ` set ms
      then Inl (TypeError ''Cannot convert object to primitive value'')
      else Inr ''[object Object]'')"
| "join_elements [] = Inr []"
| "join_elements (x # xs) =
     (case (if x = JUndefined \<or> x = JNull then Inr [] else js_String x) of
        Inl e \<Rightarrow> Inl e
      | Inr s \<Rightarrow>
          (if xs = [] then Inr s
           else case join_elements xs of Inl e \<Rightarrow> Inl e | Inr t \<Rightarrow> Inr (s @ '','' @ t)))"

text \<open>A handler that has answered, or one suspended at an \<^verbatim>\<open>await\<close>.\<close>

datatype 'a progress = Done response | Await 'a

text \<open>The \<^verbatim>\<open>catch\<close> block of \<^verbatim>\<open>/auth/callback\<close>.\<close>

definition callback_catch :: "error \<Rightarrow> response" where
  "callback_catch e =
     (if instanceof_ValidationError e then Text 400 (message e) else Text 500 (message e))"

text \<open>
  \<^verbatim>\<open>GET /auth/callback\<close>, up to its \<^verbatim>\<open>await\<close>: everything the handler does before it
  suspends on \<^verbatim>\<open>getToken\<close>.  It ends with the response sent, or suspended with the
  client and the code string handed to the library.
\<close>

definition callback_begin ::
  "process_env \<Rightarrow> state \<Rightarrow> request \<Rightarrow> (oauth_client \<times> string) progress \<times> state" where
  "callback_begin env st req =
     (let q = js_or (query req) (JObj []);
          code = get_prop q ''code'';
          state = get_prop q ''state'';
          error = get_prop q ''error''
      in if truthy error then (Done (Text 400 ''Authorization failed.''), st)
         else if \<not> truthy code \<or> \<not> truthy state
           then (Done (callback_catch (ValidationError ''Missing code or state.'')), st)
         else case map_get (oauthStates st) state of
             None \<Rightarrow> (Done (callback_catch (ValidationError ''Invalid or expired state.'')), st)
           | Some stored \<Rightarrow>
               (let st1 = st\<lparr> oauthStates := map_delete (oauthStates st) state \<rparr>
                in case createOAuthClient env of
                     Inl e \<Rightarrow> (Done (callback_catch e), st1)
                   | Inr oAuth2Client \<Rightarrow>
                       (case js_String code of
                          Inl e \<Rightarrow> (Done (callback_catch e), st1)
                        | Inr c \<Rightarrow> (Await (oAuth2Client, c), st1))))"

text \<open>
  \<^verbatim>\<open>fs.mkdirSync(DATA_DIR, ...)\<close> and \<^verbatim>\<open>fs.writeFileSync(TOKENS_PATH, JSON.stringify(merged, null, 2))\<close>.
  \<open>io\<close> is what the file system does with them: \<open>None\<close> when both succeed, the
  message of the error one of them throws otherwise.
\<close>

definition writeTokens :: "jsval \<Rightarrow> string option \<Rightarrow> state \<Rightarrow> error + state" where
  "writeTokens merged io st =
     (case io of
        None \<Rightarrow> Inr (st\<lparr> tokens_file := FileJson (json_roundtrip merged) \<rparr>)
      | Some msg \<Rightarrow> Inl (Error msg))"

text \<open>
  The rest of \<^verbatim>\<open>/auth/callback\<close>, run when \<^verbatim>\<open>getToken\<close> settles, on the state as it is
  then.  \<open>exchange\<close> is the outcome of the exchange: the message of the rejection, or the
  \<^verbatim>\<open>tokens\<close> member of the value the promise resolved to.
\<close>

definition callback_resume :: "state \<Rightarrow> string + jsval \<Rightarrow> string option \<Rightarrow> response \<times> state" where
  "callback_resume st exchange io =
     (case exchange of
        Inl msg \<Rightarrow> (callback_catch (Error msg), st)
      | Inr tokens \<Rightarrow>
          (case (case tokens_file st of
                   NoFile \<Rightarrow> Inr (JObj [])
                 | Unreadable msg \<Rightarrow> Inl (Error msg)
                 | FileJson v \<Rightarrow> Inr v) of
             Inl e \<Rightarrow> (callback_catch e, st)
           | Inr existing \<Rightarrow>
               (let merged = spread2 existing tokens
                in if \<not> truthy (get_prop merged ''refresh_token'')
                   then (callback_catch (Error ''No refresh token received. Revoke app and retry.''), st)
                   else case writeTokens merged io st of
                          Inl e \<Rightarrow> (callback_catch e, st)
                        | Inr st' \<Rightarrow> (Text 200 ''Authorization successful. You can now use /send.'', st'))))"

text \<open>The whole handler when no other handler runs while it is suspended.\<close>

definition auth_callback ::
  "process_env \<Rightarrow> state \<Rightarrow> request \<Rightarrow> (string \<Rightarrow> string + jsval) \<Rightarrow> string option \<Rightarrow> response \<times> state" where
  "auth_callback env st req getToken io =
     (case callback_begin env st req of
        (Done r, st1) \<Rightarrow> (r, st1)
      | (Await (oAuth2Client, c), st1) \<Rightarrow> callback_resume st1 (getToken c) io)"

text \<open>
  The listener \<^verbatim>\<open>loadOAuthClient\<close> registers for the library's \<^verbatim>\<open>tokens\<close> event, run
  on the client as it is when the event fires; \<open>newTokens\<close> is the token object the
  library emits.  A failed write is caught and logged.
\<close>

definition tokens_listener :: "oauth_client \<Rightarrow> jsval \<Rightarrow> string option \<Rightarrow> state \<Rightarrow> state" where
  "tokens_listener oAuth2Client newTokens io st =
     (if \<not> truthy (get_prop newTokens ''access_token'')
          \<and> \<not> truthy (get_prop newTokens ''refresh_token'') then st
      else let merged = spread2 (credentials oAuth2Client) newTokens
           in case writeTokens merged io st of
                Inr st' \<Rightarrow> st'
              | Inl err \<Rightarrow>
                  st\<lparr> console := console st @ [''Failed to update tokens.json: '' @ message err] \<rparr>)"

definition loadOAuthClient :: "process_env \<Rightarrow> state \<Rightarrow> (error + oauth_client) \<times> state" where
  "loadOAuthClient env st =
     (case cachedAuthClient st of
        Some client \<Rightarrow> (Inr client, st)
      | None \<Rightarrow>
          (case tokens_file st of
             NoFile \<Rightarrow>
               (Inl (Error (''tokens.json not found at '' @ TOKENS_PATH env
                              @ ''. Run: npm run auth or visit /auth/start.'')), st)
           | Unreadable msg \<Rightarrow> (Inl (Error msg), st)
           | FileJson tokens \<Rightarrow>
               (if tokens = JNull
                then (Inl (TypeError ''Cannot read properties of null (reading 'refresh_token')''), st)
                else if \<not> truthy (get_prop tokens ''refresh_token'')
                then (Inl (Error ''tokens.json missing refresh_token. Re-run auth with prompt=consent.''), st)
                else case createOAuthClient env of
                       Inl e \<Rightarrow> (Inl e, st)
                     | Inr oAuth2Client \<Rightarrow>
                         (let client = oAuth2Client\<lparr> credentials := tokens \<rparr>
                          in (Inr client, st\<lparr> cachedAuthClient := Some client \<rparr>)))))"

section \<open>Normalizing a send request\<close>

text \<open>
  \<^verbatim>\<open>Buffer.prototype.toString("base64")\<close> of the library: three bytes to four characters,
  padded with \<^verbatim>\<open>=\<close>.
\<close>

definition base64_alphabet :: string where
  "base64_alphabet = ''ABCDEFGHIJKLMNOPQRSTUVWXYZabcdefghijklmnopqrstuvwxyz0123456789+/''"

fun toString_base64 :: "string \<Rightarrow> string" where
  "toString_base64 [] = []"
| "toString_base64 [a] =
     (let x = (of_char a :: nat)
      in [base64_alphabet ! (x div 4), base64_alphabet ! ((x mod 4) * 16), CHR ''='', CHR ''=''])"
| "toString_base64 [a, b] =
     (let x = (of_char a :: nat); y = (of_char b :: nat)
      in [base64_alphabet ! (x div 4), base64_alphabet ! ((x mod 4) * 16 + y div 16),
          base64_alphabet ! ((y mod 16) * 4), CHR ''=''])"
| "toString_base64 (a # b # c # rest) =
     (let x = (of_char a :: nat); y = (of_char b :: nat); z = (of_char c :: nat)
      in [base64_alphabet ! (x div 4), base64_alphabet ! ((x mod 4) * 16 + y div 16),
          base64_alphabet ! ((y mod 16) * 4 + z div 64), base64_alphabet ! (z mod 64)]
         @ toString_base64 rest)"

definition base64UrlEncode :: "string \<Rightarrow> string" where
  "base64UrlEncode buffer =
     (let b = toString_base64 buffer;
          b1 = map (\<lambda>c. if c = CHR ''+'' then CHR ''-'' else c) b;
          b2 = map (\<lambda>c. if c = CHR ''/'' then CHR ''_'' else c) b1
      in rev (dropWhile (\<lambda>c. c = CHR ''='') (rev b2)))"

definition formatAddress :: "jsval \<Rightarrow> jsval \<Rightarrow> jsval" where
  "formatAddress address name =
     (if \<not> truthy address then JUndefined
      else if \<not> truthy name then address
      else JObj [(''name'', name), (''address'', address)])"

text \<open>
  The regular expression \<^verbatim>\<open>/^data:([^;]+);base64,(.+)$/i\<close>, on a string given as the
  bytes of its UTF-8 form.  The flag \<^verbatim>\<open>i\<close> lets each letter of the pattern match in
  either case.  The first group cannot hold a \<^verbatim>\<open>;\<close> and is followed by one, so it is
  the non-empty text up to the first \<^verbatim>\<open>;\<close>; the second group is the rest of the
  string, non-empty and free of line terminators (\<^verbatim>\<open>.\<close> matches none of LF, CR,
  U+2028, U+2029, and \<^verbatim>\<open>$\<close> only matches at the end).
\<close>

definition ascii_lower :: "char \<Rightarrow> char" where
  "ascii_lower c =
     (let n = (of_char c :: nat) in if 65 \<le> n \<and> n \<le> 90 then char_of (n + 32) else c)"

fun has_line_terminator :: "string \<Rightarrow> bool" where
  "has_line_terminator [] = False"
| "has_line_terminator (c # cs) =
     (c = CHR 0x0A \<or> c = CHR 0x0D
      \<or> (c = CHR 0xE2 \<and> (take 2 cs = [CHR 0x80, CHR 0xA8] \<or> take 2 cs = [CHR 0x80, CHR 0xA9]))
      \<or> has_line_terminator cs)"

text \<open>A match is the pair of the two groups: \<^verbatim>\<open>{ contentType, contentBase64 }\<close>.\<close>

definition match_data_url :: "string \<Rightarrow> (string \<times> string) option" where
  "match_data_url s =
     (if map ascii_lower (take 5 s) = ''data:''
      then (let rest = drop 5 s;
                group1 = takeWhile (\<lambda>c. c \<noteq> CHR '';'') rest;
                after = dropWhile (\<lambda>c. c \<noteq> CHR '';'') rest;
                group2 = drop 8 after
            in if group1 \<noteq> [] \<and> map ascii_lower (take 8 after) = '';base64,''
                  \<and> group2 \<noteq> [] \<and> \<not> has_line_terminator group2
               then Some (group1, group2)
               else None)
      else None)"

fun parseDataUrl :: "jsval \<Rightarrow> (string \<times> string) option" where
  "parseDataUrl (JStr s) = match_data_url s"
| "parseDataUrl v = None"

text \<open>
  The object the \<^verbatim>\<open>map\<close> callback of \<^verbatim>\<open>normalizeAttachments\<close> builds at its end:
  \<^verbatim>\<open>filename\<close> and \<^verbatim>\<open>content\<close>, then each optional member only when its value is
  truthy.
\<close>

definition normalized_attachment ::
  "jsval \<Rightarrow> jsval \<Rightarrow> jsval \<Rightarrow> jsval \<Rightarrow> jsval \<Rightarrow> jsval \<Rightarrow> jsval" where
  "normalized_attachment filename finalContent finalEncoding finalContentType cid
       contentDisposition =
     JObj ([(''filename'', filename), (''content'', finalContent)]
           @ (if truthy finalEncoding then [(''encoding'', finalEncoding)] else [])
           @ (if truthy finalContentType then [(''contentType'', finalContentType)] else [])
           @ (if truthy cid then [(''cid'', cid)] else [])
           @ (if truthy contentDisposition then [(''contentDisposition'', contentDisposition)]
              else []))"

text \<open>The callback on one entry and its index.\<close>

definition normalizeAttachment :: "nat \<Rightarrow> jsval \<Rightarrow> error + jsval" where
  "normalizeAttachment index attachment =
     (if \<not> truthy attachment \<or> typeof attachment \<noteq> ''object''
      then Inl (ValidationError (''attachments['' @ show_nat index @ ''] must be an object''))
      else
        let filename = get_prop attachment ''filename'';
            content = get_prop attachment ''content'';
            contentBase64 = get_prop attachment ''contentBase64'';
            contentType = get_prop attachment ''contentType'';
            encoding = get_prop attachment ''encoding'';
            cid = get_prop attachment ''cid'';
            contentDisposition = get_prop attachment ''contentDisposition''
        in if \<not> truthy filename
           then Inl (ValidationError (''attachments['' @ show_nat index @ ''].filename is required''))
           else
             let dataUrl = parseDataUrl content;
                 (finalContent, finalEncoding, finalContentType) =
                   (case dataUrl of
                      Some (dataUrl_contentType, dataUrl_contentBase64) \<Rightarrow>
                        (JStr dataUrl_contentBase64, JStr ''base64'',
                         js_or contentType (JStr dataUrl_contentType))
                    | None \<Rightarrow> (content, encoding, contentType));
                 (finalContent, finalEncoding) =
                   (if \<not> truthy finalContent \<and> truthy contentBase64
                    then (contentBase64, js_or finalEncoding (JStr ''base64''))
                    else (finalContent, finalEncoding))
             in if \<not> truthy finalContent
                then Inl (ValidationError
                       (''attachments['' @ show_nat index @ ''].content or contentBase64 is required''))
                else Inr (normalized_attachment filename finalContent finalEncoding
                            finalContentType cid contentDisposition))"

text \<open>\<^verbatim>\<open>input.map(...)\<close>: the entries in order, stopping at the first one that throws.\<close>

fun map_attachments :: "nat \<Rightarrow> jsval list \<Rightarrow> error + jsval list" where
  "map_attachments index [] = Inr []"
| "map_attachments index (attachment # rest) =
     (case normalizeAttachment index attachment of
        Inl e \<Rightarrow> Inl e
      | Inr normalized \<Rightarrow>
          (case map_attachments (Suc index) rest of
             Inl e \<Rightarrow> Inl e
           | Inr others \<Rightarrow> Inr (normalized # others)))"

definition normalizeAttachments :: "jsval \<Rightarrow> error + jsval" where
  "normalizeAttachments input =
     (if \<not> truthy input then Inr JUndefined
      else case input of
             JArr entries \<Rightarrow>
               (case map_attachments 0 entries of
                  Inl e \<Rightarrow> Inl e
                | Inr normalized \<Rightarrow> Inr (JArr normalized))
           | _ \<Rightarrow> Inl (ValidationError ''attachments must be an array''))"

text \<open>
  \<^verbatim>\<open>normalized[key] = String(value)\<close> on the object literal \<^verbatim>\<open>normalized\<close>.  For the
  key \<^verbatim>\<open>__proto__\<close> the assignment reaches the setter inherited from
  \<^verbatim>\<open>Object.prototype\<close>, which ignores a string: no member is defined.
\<close>

definition assign_string :: "(string \<times> jsval) list \<Rightarrow> string \<Rightarrow> string \<Rightarrow> (string \<times> jsval) list" where
  "assign_string normalized key s =
     (if key = ''__proto__'' then normalized else define_prop normalized key (JStr s))"

text \<open>The loop of \<^verbatim>\<open>normalizeHeaders\<close> over \<^verbatim>\<open>Object.entries(headers)\<close>.\<close>

fun headers_loop :: "(string \<times> jsval) list \<Rightarrow> (string \<times> jsval) list \<Rightarrow> error + (string \<times> jsval) list" where
  "headers_loop [] normalized = Inr normalized"
| "headers_loop ((key, v) # rest) normalized =
     (if v = JUndefined \<or> v = JNull then headers_loop rest normalized
      else case js_String v of
             Inl e \<Rightarrow> Inl e
           | Inr s \<Rightarrow> headers_loop rest (assign_string normalized key s))"

definition normalizeHeaders :: "jsval \<Rightarrow> error + jsval" where
  "normalizeHeaders headers =
     (if \<not> truthy headers then Inr JUndefined
      else if typeof headers \<noteq> ''object'' \<or> isArray headers
        then Inl (ValidationError ''headers must be an object'')
      else case headers_loop (own_entries headers) [] of
             Inl e \<Rightarrow> Inl e
           | Inr normalized \<Rightarrow> Inr (JObj normalized))"

section \<open>Sending\<close>

text \<open>
  What \<^verbatim>\<open>POST /send\<close> does beyond computing, in the order it does it: acquiring the
  session (\<open>loadOAuthClient\<close>, which may read the token file), building the MIME document,
  and calling the provider's send with the user id and the encoded document.
\<close>

datatype event = AcquireSession | Compose jsval | ProviderSend string string

text \<open>The \<^verbatim>\<open>catch\<close> block of \<^verbatim>\<open>/send\<close>.\<close>

definition send_catch :: "error \<Rightarrow> response" where
  "send_catch e =
     (if instanceof_ValidationError e then Json 400 (JObj [(''error'', JStr (message e))])
      else Json 500 (JObj [(''error'', JStr (message e))]))"

text \<open>
  \<^verbatim>\<open>POST /send\<close>.  \<open>build\<close> is what \<^verbatim>\<open>buildMimeMessage\<close> settles to for the options
  given to the composer: the message of the rejection, or the document.  \<open>messages_send\<close>
  is what the provider call settles to for the client and the encoded document: the
  message of the rejection, or the response.  The handler returns its response, the
  state and the events in their order.  (A token refresh the library performs during
  the provider call runs \<open>tokens_listener\<close>, a transition of its own.)
\<close>

definition post_send ::
  "process_env \<Rightarrow> state \<Rightarrow> request \<Rightarrow> (jsval \<Rightarrow> string + string)
     \<Rightarrow> (oauth_client \<Rightarrow> string \<Rightarrow> string + jsval) \<Rightarrow> response \<times> state \<times> event list" where
  "post_send env st req build messages_send =
     (let key = header req ''x-api-key''
      in if key \<noteq> API_KEY env then (Json 401 (JObj [(''error'', JStr ''Unauthorized'')]), st, [])
         else
           let b = js_or (body req) (JObj []);
               to = get_prop b ''to'';
               subject = get_prop b ''subject'';
               text = get_prop b ''text'';
               html = get_prop b ''html'';
               cc = get_prop b ''cc'';
               bcc = get_prop b ''bcc'';
               replyTo = get_prop b ''replyTo'';
               replyToName = get_prop b ''replyToName'';
               fromName = get_prop b ''fromName'';
               headers = get_prop b ''headers'';
               inReplyTo = get_prop b ''inReplyTo'';
               references = get_prop b ''references'';
               messageId = get_prop b ''messageId'';
               priority = get_prop b ''priority'';
               attachments = get_prop b ''attachments''
           in case normalizeHeaders headers of
                Inl e \<Rightarrow> (send_catch e, st, [])
              | Inr normalizedHeaders \<Rightarrow>
           (case normalizeAttachments attachments of
                Inl e \<Rightarrow> (send_catch e, st, [])
              | Inr normalizedAttachments \<Rightarrow>
           (let hasAttachments =
                  (isArray normalizedAttachments \<and> normalizedAttachments \<noteq> JArr [])
            in if \<not> truthy to \<or> \<not> truthy subject
                  \<or> (\<not> truthy text \<and> \<not> truthy html \<and> \<not> hasAttachments)
               then (send_catch
                       (ValidationError ''Require: to, subject, and text/html or attachments''),
                     st, [])
               else
                 (case loadOAuthClient env st of
                    (Inl e, st1) \<Rightarrow> (send_catch e, st1, [AcquireSession])
                  | (Inr auth, st1) \<Rightarrow>
                 (let formattedFrom = formatAddress (env_value (FROM_EMAIL env)) fromName;
                      formattedReplyTo = formatAddress replyTo replyToName;
                      mail = JObj [(''to'', to), (''cc'', cc), (''bcc'', bcc),
                                   (''replyTo'', formattedReplyTo), (''from'', formattedFrom),
                                   (''subject'', subject), (''text'', text), (''html'', html),
                                   (''headers'', normalizedHeaders), (''inReplyTo'', inReplyTo),
                                   (''references'', references), (''messageId'', messageId),
                                   (''priority'', priority),
                                   (''attachments'', normalizedAttachments)]
                  in case build mail of
                       Inl msg \<Rightarrow> (send_catch (Error msg), st1, [AcquireSession, Compose mail])
                     | Inr mime \<Rightarrow>
                 (let raw = base64UrlEncode mime
                  in case messages_send auth raw of
                       Inl msg \<Rightarrow>
                         (send_catch (Error msg), st1,
                          [AcquireSession, Compose mail, ProviderSend ''me'' raw])
                     | Inr resp \<Rightarrow>
                         (Json 200
                            (JObj [(''id'', get_prop (get_prop resp ''data'') ''id''),
                                   (''threadId'', get_prop (get_prop resp ''data'') ''threadId'')]),
                          st1, [AcquireSession, Compose mail, ProviderSend ''me'' raw])))))))"

section \<open>Example configurations and states\<close>

text \<open>Concrete inputs at which the properties below are evaluated.\<close>

definition env_ok :: process_env where
  "env_ok = \<lparr> API_KEY = Some ''k'', FROM_EMAIL = Some ''me@example.com'',
       GOOGLE_CLIENT_ID = Some ''id'', GOOGLE_CLIENT_SECRET = Some ''secret'',
       GOOGLE_REDIRECT_URI = Some ''http://localhost:3000/auth/callback'', cwd = ''/app'' \<rparr>"

definition env_no_key :: process_env where
  "env_no_key = env_ok\<lparr> API_KEY := None \<rparr>"

definition env_no_oauth :: process_env where
  "env_no_oauth = env_ok\<lparr> GOOGLE_CLIENT_ID := None, GOOGLE_CLIENT_SECRET := None,
       GOOGLE_REDIRECT_URI := None \<rparr>"

definition client_ok :: oauth_client where
  "client_ok = \<lparr> client_id = ''id'', client_secret = ''secret'',
       redirect_uri = ''http://localhost:3000/auth/callback'', credentials = JObj [] \<rparr>"

definition st_empty :: state where
  "st_empty = \<lparr> cachedAuthClient = None, oauthStates = [], tokens_file = NoFile, console = [] \<rparr>"

definition req_empty :: request where
  "req_empty = \<lparr> query = JObj [], raw_headers = [], body = JUndefined \<rparr>"

definition st_old_state :: state where
  "st_old_state = st_empty\<lparr> oauthStates := [(''5f3a'', 0)] \<rparr>"

definition req_callback :: request where
  "req_callback =
     req_empty\<lparr> query := JObj [(''code'', JStr ''4/abc''), (''state'', JStr ''5f3a'')] \<rparr>"

definition creds_old :: jsval where
  "creds_old = JObj [(''access_token'', JStr ''a0''), (''refresh_token'', JStr ''r0'')]"

definition tokens_new :: jsval where
  "tokens_new = JObj [(''access_token'', JStr ''a1''), (''expiry_date'', JNum ''1700000000000'')]"

definition creds_merged :: jsval where
  "creds_merged = JObj [(''access_token'', JStr ''a1''), (''refresh_token'', JStr ''r0''),
       (''expiry_date'', JNum ''1700000000000'')]"

definition req_no_recipient :: request where
  "req_no_recipient = \<lparr> query = JObj [], raw_headers = [(''x-api-key'', ''k'')],
      body = JObj [(''subject'', JStr ''Hello''), (''text'', JStr ''Hi''),
                   (''headers'', JStr ''X-Job-Id: 1'')] \<rparr>"

definition req_no_body_parts :: request where
  "req_no_body_parts = \<lparr> query = JObj [], raw_headers = [(''x-api-key'', ''k'')],
      body = JObj [(''to'', JStr ''you@example.com''), (''subject'', JStr ''Hello''),
                   (''attachments'', JArr [])] \<rparr>"

definition req_hello :: request where
  "req_hello = \<lparr> query = JObj [], raw_headers = [(''x-api-key'', ''k'')],
      body = JObj [(''to'', JStr ''you@example.com''), (''subject'', JStr ''Hello''),
                   (''text'', JStr ''Sent from the API'')] \<rparr>"

definition mail_hello :: jsval where
  "mail_hello = JObj [(''to'', JStr ''you@example.com''), (''cc'', JUndefined),
      (''bcc'', JUndefined), (''replyTo'', JUndefined), (''from'', JStr ''me@example.com''),
      (''subject'', JStr ''Hello''), (''text'', JStr ''Sent from the API''),
      (''html'', JUndefined), (''headers'', JUndefined), (''inReplyTo'', JUndefined),
      (''references'', JUndefined), (''messageId'', JUndefined), (''priority'', JUndefined),
      (''attachments'', JUndefined)]"

definition st_authorized :: state where
  "st_authorized = st_empty\<lparr> tokens_file := FileJson creds_old \<rparr>"

definition attachment_png :: jsval where
  "attachment_png = JObj [(''filename'', JStr ''logo.png''),
      (''content'', JStr ''data:image/png;base64,AAAA'')]"

definition attachment_png_typed :: jsval where
  "attachment_png_typed = JObj [(''filename'', JStr ''logo.png''),
      (''content'', JStr ''data:image/png;base64,AAAA''),
      (''contentType'', JStr ''application/octet-stream'')]"

definition attachment_both :: jsval where
  "attachment_both = JObj [(''filename'', JStr ''note.txt''), (''content'', JStr ''Hello''),
      (''contentBase64'', JStr ''SGk='')]"

definition build_ok :: "jsval \<Rightarrow> string + string" where
  "build_ok mail = Inr ''MIME''"

definition send_ok :: "oauth_client \<Rightarrow> string \<Rightarrow> string + jsval" where
  "send_ok auth raw =
     Inr (JObj [(''data'', JObj [(''id'', JStr ''18c''), (''threadId'', JStr ''18d'')])])"

definition req_denied :: request where
  "req_denied =
     req_empty\<lparr> query := JObj [(''error'', JStr ''access_denied''), (''state'', JStr ''5f3a'')] \<rparr>"

definition attachment_png_upper :: jsval where
  "attachment_png_upper = JObj [(''filename'', JStr ''logo.png''),
      (''content'', JStr ''DATA:image/png;BASE64,AAAA''), (''encoding'', JStr ''utf8'')]"

definition attachment_charset :: jsval where
  "attachment_charset = JObj [(''filename'', JStr ''note.txt''),
      (''content'', JStr ''data:text/plain;charset=utf-8;base64,SGk=''),
      (''encoding'', JStr ''utf8'')]"

section \<open>Properties\<close>

lemma map_of_define_prop:
  "map_of (define_prop ms key v) k = (if k = key then Some v else map_of ms k)"
  by (induction ms key v rule: define_prop.induct) auto

subsection \<open>Helper facts about objects\<close>

lemma map_of_fold_define_prop:
  "map_of (fold (\<lambda>(k, v) ms. define_prop ms k v) es acc) k
     = (case map_of (rev es) k of Some v \<Rightarrow> Some v | None \<Rightarrow> map_of acc k)"
proof (induction es arbitrary: acc)
  case Nil
  then show ?case by simp
next
  case (Cons e es)
  obtain k' v' where e: "e = (k', v')" by (cases e)
  show ?case
    by (simp add: Cons.IH e map_of_define_prop map_add_def split: option.splits)
qed

lemma map_of_rev_distinct:
  "distinct (map fst xs) \<Longrightarrow> map_of (rev xs) = map_of xs"
proof (induction xs)
  case Nil
  then show ?case by simp
next
  case (Cons x xs)
  then have "map_of xs (fst x) = None"
    by (simp add: map_of_eq_None_iff)
  with Cons show ?case
    by (cases x) (auto simp: map_add_def fun_eq_iff split: option.splits)
qed

lemma get_prop_spread2:
  assumes "distinct (map fst (own_entries a))" and "key \<notin> fst ` set (own_entries b)"
    and "get_prop a key = JStr r"
  shows "get_prop (spread2 a b) key = JStr r"
proof -
  from assms(3) obtain ms where a: "a = JObj ms" and m: "map_of ms key = Some (JStr r)"
    by (cases a) (auto split: option.splits)
  have "map_of (rev (own_entries b)) key = None"
    using assms(2) by (simp add: map_of_eq_None_iff)
  moreover have "map_of (rev ms) key = Some (JStr r)"
    using assms(1) m a by (simp add: map_of_rev_distinct)
  ultimately show ?thesis
    by (simp add: spread2_def map_of_fold_define_prop a map_add_def)
qed

lemma map_of_json_members:
  "map_of ms key = Some (JStr r) \<Longrightarrow>
   map_of (map (\<lambda>(k, v). (k, json_roundtrip v)) (filter (\<lambda>(k, v). v \<noteq> JUndefined) ms)) key
     = Some (JStr r)"
  by (induction ms) (auto split: if_splits)

lemma get_prop_json_roundtrip:
  "get_prop v key = JStr r \<Longrightarrow> get_prop (json_roundtrip v) key = JStr r"
  by (cases v) (auto split: option.splits simp: map_of_json_members)

lemma map_of_filter_key: "map_of (filter (\<lambda>(k, w). k \<noteq> key) ms) key = None"
  by (induction ms) auto

lemma js_or_query:
  "get_prop q key = JStr s \<Longrightarrow> js_or q (JObj []) = q"
  by (cases q) (simp_all add: js_or_def)

lemma createOAuthClient_env_ok: "createOAuthClient env_ok = Inr client_ok"
  by (simp add: createOAuthClient_def env_ok_def client_ok_def)

subsection \<open>Helper facts about the normalizers\<close>

lemma define_prop_fresh:
  "key \<notin> fst ` set ms \<Longrightarrow> define_prop ms key v = ms @ [(key, v)]"
  by (induction ms key v rule: define_prop.induct) auto

lemma headers_loop_distinct:
  assumes "distinct (map fst ms)" and "fst ` set ms \<inter> fst ` set acc = {}"
      and "''__proto__'' \<notin> fst ` set ms"
      and "\<forall>v \<in> snd ` set ms. \<not> isl (js_String v)"
  shows "headers_loop ms acc =
           Inr (acc @ map (\<lambda>(k, v). (k, JStr (projr (js_String v))))
                        (filter (\<lambda>(k, v). v \<noteq> JUndefined \<and> v \<noteq> JNull) ms))"
  using assms
proof (induction ms arbitrary: acc)
  case Nil
  then show ?case by simp
next
  case (Cons e ms)
  obtain k v where e: "e = (k, v)" by (cases e)
  show ?case
  proof (cases "v = JUndefined \<or> v = JNull")
    case True
    have "headers_loop ms acc =
           Inr (acc @ map (\<lambda>(k, v). (k, JStr (projr (js_String v))))
                        (filter (\<lambda>(k, v). v \<noteq> JUndefined \<and> v \<noteq> JNull) ms))"
      using Cons.prems by (intro Cons.IH) auto
    with True e show ?thesis by auto
  next
    case False
    from Cons.prems(4) e obtain s where s: "js_String v = Inr s"
      by (cases "js_String v") auto
    have k: "k \<noteq> ''__proto__''" "k \<notin> fst ` set acc" "k \<notin> fst ` set ms"
      using Cons.prems e by auto
    let ?acc = "acc @ [(k, JStr s)]"
    have "headers_loop ms ?acc =
           Inr (?acc @ map (\<lambda>(k, v). (k, JStr (projr (js_String v))))
                        (filter (\<lambda>(k, v). v \<noteq> JUndefined \<and> v \<noteq> JNull) ms))"
      using Cons.prems k e by (intro Cons.IH) auto
    with False e s k show ?thesis
      by (simp add: assign_string_def define_prop_fresh)
  qed
qed

lemma ascii_lower_data: "map ascii_lower ''data:'' = ''data:''"
  by (simp add: ascii_lower_def)

lemma ascii_lower_base64: "map ascii_lower '';base64,'' = '';base64,''"
  by (simp add: ascii_lower_def)

lemma match_data_url_form:
  assumes "mime \<noteq> []" and "CHR '';'' \<notin> set mime"
      and "payload \<noteq> []" and "\<not> has_line_terminator payload"
  shows "match_data_url (''data:'' @ mime @ '';base64,'' @ payload) = Some (mime, payload)"
proof -
  have t: "takeWhile (\<lambda>c. c \<noteq> CHR '';'') (mime @ '';base64,'' @ payload) = mime"
    using assms(2) by (subst takeWhile_append2) auto
  have d: "dropWhile (\<lambda>c. c \<noteq> CHR '';'') (mime @ '';base64,'' @ payload)
             = '';base64,'' @ payload"
    using assms(2) by (subst dropWhile_append2) auto
  have p: "map ascii_lower (take 5 (''data:'' @ mime @ '';base64,'' @ payload)) = ''data:''"
    using ascii_lower_data by simp
  have r: "drop 5 (''data:'' @ mime @ '';base64,'' @ payload) = mime @ '';base64,'' @ payload"
    by simp
  have m: "map ascii_lower (take 8 ('';base64,'' @ payload)) = '';base64,''"
    using ascii_lower_base64 by simp
  have g: "drop 8 ('';base64,'' @ payload) = payload"
    by simp
  show ?thesis
    unfolding match_data_url_def p r Let_def t d m g using assms by simp
qed

lemma match_data_url_nonempty:
  "match_data_url s = Some (m, p) \<Longrightarrow> m \<noteq> [] \<and> p \<noteq> []"
  by (auto simp: match_data_url_def Let_def split: if_splits)

lemma parseDataUrl_nonempty:
  "parseDataUrl c = Some (m, p) \<Longrightarrow> m \<noteq> [] \<and> p \<noteq> []"
  by (cases c) (auto dest: match_data_url_nonempty)

lemma loadOAuthClient_error:
  "loadOAuthClient env st = (Inl e, st1) \<Longrightarrow> \<not> instanceof_ValidationError e \<and> st1 = st"
  by (auto simp: loadOAuthClient_def createOAuthClient_def Let_def
      split: option.splits token_file.splits if_splits sum.splits)

lemma ascii_lower_semicolon: "ascii_lower c = CHR '';'' \<Longrightarrow> c = CHR '';''"
proof (rule ccontr)
  assume a: "ascii_lower c = CHR '';''" and n: "c \<noteq> CHR '';''"
  let ?n = "of_char c :: nat"
  from a n have r: "65 \<le> ?n" "?n \<le> 90" and c: "char_of (?n + 32) = CHR '';''"
    by (auto simp: ascii_lower_def Let_def split: if_splits)
  from c have "(of_char (char_of (?n + 32) :: char) :: nat) = of_char (CHR '';'')"
    by simp
  then have "(?n + 32) mod 256 = 59" by simp
  with r show False by simp
qed

lemma match_data_url_ci:
  assumes "map ascii_lower p = ''data:''" and "map ascii_lower m = '';base64,''"
      and "mime \<noteq> []" and "CHR '';'' \<notin> set mime"
      and "payload \<noteq> []" and "\<not> has_line_terminator payload"
  shows "match_data_url (p @ mime @ m @ payload) = Some (mime, payload)"
proof -
  have "length (map ascii_lower p) = length ''data:''" using assms(1) by simp
  then have lp: "length p = 5" by simp
  have "length (map ascii_lower m) = length '';base64,''" using assms(2) by simp
  then have lm: "length m = 8" by simp
  from lm obtain c m' where m: "m = c # m'" by (cases m) auto
  with assms(2) have "ascii_lower c = CHR '';''" by simp
  then have c: "c = CHR '';''" by (rule ascii_lower_semicolon)
  have t: "takeWhile (\<lambda>c. c \<noteq> CHR '';'') (mime @ m @ payload) = mime"
    using assms(4) m c by (subst takeWhile_append2) auto
  have d: "dropWhile (\<lambda>c. c \<noteq> CHR '';'') (mime @ m @ payload) = m @ payload"
    using assms(4) m c by (subst dropWhile_append2) auto
  have pp: "map ascii_lower (take 5 (p @ mime @ m @ payload)) = ''data:''"
    using assms(1) lp by simp
  have r: "drop 5 (p @ mime @ m @ payload) = mime @ m @ payload"
    using lp by simp
  have mm: "map ascii_lower (take 8 (m @ payload)) = '';base64,''"
    using assms(2) lm by simp
  have g: "drop 8 (m @ payload) = payload"
    using lm by simp
  show ?thesis
    unfolding match_data_url_def pp r Let_def t d mm g using assms by simp
qed

lemma match_data_url_decompose:
  assumes "match_data_url s = Some (mime, payload)"
  shows "\<exists>p m. s = p @ mime @ m @ payload
           \<and> map ascii_lower p = ''data:'' \<and> map ascii_lower m = '';base64,''
           \<and> mime \<noteq> [] \<and> CHR '';'' \<notin> set mime
           \<and> payload \<noteq> [] \<and> \<not> has_line_terminator payload"
proof -
  let ?rest = "drop 5 s"
  let ?after = "dropWhile (\<lambda>c. c \<noteq> CHR '';'') ?rest"
  from assms have h: "map ascii_lower (take 5 s) = ''data:''"
      "mime = takeWhile (\<lambda>c. c \<noteq> CHR '';'') ?rest"
      "map ascii_lower (take 8 ?after) = '';base64,''"
      "payload = drop 8 ?after" "mime \<noteq> []" "payload \<noteq> []"
      "\<not> has_line_terminator payload"
    by (auto simp: match_data_url_def Let_def split: if_splits)
  have "s = take 5 s @ ?rest" by simp
  also have "?rest = mime @ ?after" using h(2) by simp
  also have "?after = take 8 ?after @ payload" using h(4) by simp
  finally have s: "s = take 5 s @ mime @ take 8 ?after @ payload" .
  have semi: "CHR '';'' \<notin> set mime"
    using h(2) by (auto dest: set_takeWhileD)
  show ?thesis
  proof (intro exI conjI)
    show "s = take 5 s @ mime @ take 8 ?after @ payload" by (rule s)
    show "map ascii_lower (take 5 s) = ''data:''" by (rule h(1))
    show "map ascii_lower (take 8 ?after) = '';base64,''" by (rule h(3))
    show "mime \<noteq> []" by (rule h(5))
    show "CHR '';'' \<notin> set mime" by (rule semi)
    show "payload \<noteq> []" by (rule h(6))
    show "\<not> has_line_terminator payload" by (rule h(7))
  qed
qed

lemma match_data_url_None:
  assumes "\<not> (\<exists>p mime m payload. s = p @ mime @ m @ payload
           \<and> map ascii_lower p = ''data:'' \<and> map ascii_lower m = '';base64,''
           \<and> mime \<noteq> [] \<and> CHR '';'' \<notin> set mime
           \<and> payload \<noteq> [] \<and> \<not> has_line_terminator payload)"
  shows "match_data_url s = None"
proof (cases "match_data_url s")
  case None
  then show ?thesis .
next
  case (Some d)
  obtain mime payload where "d = (mime, payload)" by (cases d)
  with Some have "match_data_url s = Some (mime, payload)" by simp
  from match_data_url_decompose [OF this]
  have "\<exists>p mime m payload. s = p @ mime @ m @ payload
           \<and> map ascii_lower p = ''data:'' \<and> map ascii_lower m = '';base64,''
           \<and> mime \<noteq> [] \<and> CHR '';'' \<notin> set mime
           \<and> payload \<noteq> [] \<and> \<not> has_line_terminator payload"
    by (elim exE) (intro exI, assumption)
  then show ?thesis by (rule notE [OF assms])
qed

lemma match_data_url_None_decompose:
  assumes "match_data_url s = None"
  shows "\<not> (\<exists>p mime m payload. s = p @ mime @ m @ payload
           \<and> map ascii_lower p = ''data:'' \<and> map ascii_lower m = '';base64,''
           \<and> mime \<noteq> [] \<and> CHR '';'' \<notin> set mime
           \<and> payload \<noteq> [] \<and> \<not> has_line_terminator payload)"
proof
  assume "\<exists>p mime m payload. s = p @ mime @ m @ payload
           \<and> map ascii_lower p = ''data:'' \<and> map ascii_lower m = '';base64,''
           \<and> mime \<noteq> [] \<and> CHR '';'' \<notin> set mime
           \<and> payload \<noteq> [] \<and> \<not> has_line_terminator payload"
  then have "\<exists>mime payload. match_data_url s = Some (mime, payload)"
    by (elim exE conjE, hypsubst) (intro exI, rule match_data_url_ci; assumption)
  with assms show False by simp
qed

lemma js_or_member:
  "get_prop (js_or x (JObj [])) key = JStr s \<Longrightarrow> js_or x (JObj []) = x"
  by (cases "truthy x") (simp_all add: js_or_def)

subsection \<open>Helper facts about the state map\<close>

lemma set_cleanupStates:
  "set (cleanupStates now ms) = {(s, c) \<in> set ms. \<not> now - c > AUTH_STATE_TTL_MS}"
  by (induction now ms rule: cleanupStates.induct) auto

lemma map_of_map_set:
  "map_of (map_set ms key v) k = (if k = key then Some v else map_of ms k)"
  by (induction ms key v rule: map_set.induct) auto

lemma set_map_set:
  "set (map_set ms key v) \<subseteq> insert (key, v) (set ms)"
  by (induction ms key v rule: map_set.induct) auto

lemma set_map_set_other:
  "(k, w) \<in> set ms \<Longrightarrow> k \<noteq> key \<Longrightarrow> (k, w) \<in> set (map_set ms key v)"
  by (induction ms key v rule: map_set.induct) auto

subsection \<open>Startup configuration\<close>

text \<open>
  C4, as the code has it.  The server's startup aborts (exit code 1) when the API secret
  or the sender address is not set, and only then: with both set it goes on to listen,
  whatever the OAuth variables are.  A missing OAuth client id, client secret or redirect
  URI is found by \<open>createOAuthClient\<close>, which the handlers call per request:
  \<^verbatim>\<open>/auth/start\<close> then answers 500 with the message.  The one-shot command-line script
  does abort at its startup when an OAuth variable is missing.
\<close>

theorem startup_config_checks:
  "(\<not> is_set (API_KEY env) \<or> \<not> is_set (FROM_EMAIL env) \<longrightarrow> (\<exists>m. startup env = Exited 1 m))
   \<and> (is_set (API_KEY env) \<and> is_set (FROM_EMAIL env) \<longrightarrow> startup env = Listening PORT)
   \<and> (\<not> is_set (GOOGLE_CLIENT_ID env) \<or> \<not> is_set (GOOGLE_CLIENT_SECRET env)
        \<or> \<not> is_set (GOOGLE_REDIRECT_URI env) \<longrightarrow>
        createOAuthClient env = Inl (Error ''Missing Google OAuth env vars'')
        \<and> fst (auth_start env now now' random st req)
            = Json 500 (JObj [(''error'', JStr ''Missing Google OAuth env vars'')])
        \<and> (\<exists>m. auth_script_startup env = ScriptExited 1 m))"
  by (auto simp: startup_def createOAuthClient_def auth_start_def auth_script_startup_def Let_def)

text \<open>
  C4 as stated fails: with the API secret and the sender address set and no OAuth
  variable set, the server starts and listens on port 3000, and the missing
  configuration shows only when a request needs the client.
\<close>

theorem startup_without_oauth_config_counterexample:
  "startup env_no_oauth = Listening 3000
   \<and> fst (auth_start env_no_oauth 0 0 ''00ff'' st_empty req_empty)
      = Json 500 (JObj [(''error'', JStr ''Missing Google OAuth env vars'')])"
  by (simp add: startup_def PORT_def auth_start_def createOAuthClient_def env_no_oauth_def
      env_ok_def)

text \<open>The startup property at a configuration without the API secret and at one without
  the OAuth variables.\<close>

theorem startup_config_checks_witness:
  "\<not> is_set (API_KEY env_no_key)
   \<and> (\<exists>m. startup env_no_key = Exited 1 m)
   \<and> is_set (API_KEY env_no_oauth) \<and> is_set (FROM_EMAIL env_no_oauth)
   \<and> \<not> is_set (GOOGLE_CLIENT_ID env_no_oauth)
   \<and> startup env_no_oauth = Listening PORT
   \<and> createOAuthClient env_no_oauth = Inl (Error ''Missing Google OAuth env vars'')
   \<and> (\<exists>m. auth_script_startup env_no_oauth = ScriptExited 1 m)"
  using startup_config_checks [of env_no_key] startup_config_checks [of env_no_oauth]
  by (simp add: env_no_key_def env_no_oauth_def env_ok_def)

subsection \<open>Starting an authorization\<close>

text \<open>
  C10.  With the OAuth client configured, \<^verbatim>\<open>GET /auth/start\<close> answers every request the
  same way, whatever its query, headers or body: it sweeps the states older than the TTL,
  registers the random token with the current time and redirects (302) to the consent
  URL built for that token.  No secret and no parameter of the request is read.
\<close>

theorem auth_start_unauthenticated:
  assumes "createOAuthClient env = Inr client"
  shows "auth_start env now now' random st req =
           (Redirect 302
              (ConsentUrl client
                 (JObj [(''access_type'', JStr ''offline''), (''prompt'', JStr ''consent''),
                        (''scope'', SCOPES), (''state'', JStr random)])),
            st\<lparr> oauthStates := map_set (cleanupStates now (oauthStates st)) random now' \<rparr>)
         \<and> auth_start env now now' random st req' = auth_start env now now' random st req
         \<and> map_get (oauthStates (snd (auth_start env now now' random st req))) (JStr random)
             = Some now'
         \<and> (\<forall>(s, c) \<in> set (oauthStates (snd (auth_start env now now' random st req))).
               s = random \<or> \<not> now - c > AUTH_STATE_TTL_MS)
         \<and> (\<forall>(s, c) \<in> set (oauthStates st).
               s \<noteq> random \<and> \<not> now - c > AUTH_STATE_TTL_MS \<longrightarrow>
               (s, c) \<in> set (oauthStates (snd (auth_start env now now' random st req))))"
proof -
  let ?ms = "map_set (cleanupStates now (oauthStates st)) random now'"
  have run: "auth_start env now now' random st r =
           (Redirect 302
              (ConsentUrl client
                 (JObj [(''access_type'', JStr ''offline''), (''prompt'', JStr ''consent''),
                        (''scope'', SCOPES), (''state'', JStr random)])),
            st\<lparr> oauthStates := ?ms \<rparr>)" for r
    using assms by (simp add: auth_start_def Let_def)
  have swept: "s = random \<or> \<not> now - c > AUTH_STATE_TTL_MS" if "(s, c) \<in> set ?ms" for s c
  proof -
    from that set_map_set
    have "(s, c) = (random, now') \<or> (s, c) \<in> set (cleanupStates now (oauthStates st))"
      by fastforce
    then show ?thesis by (auto simp: set_cleanupStates)
  qed
  have kept: "(s, c) \<in> set ?ms"
    if "(s, c) \<in> set (oauthStates st)" "s \<noteq> random" "\<not> now - c > AUTH_STATE_TTL_MS" for s c
    using that by (intro set_map_set_other) (auto simp: set_cleanupStates)
  show ?thesis
    using swept kept by (auto simp: run map_of_map_set)
qed

text \<open>
  The property at a request that carries a wrong key in its query and no header, eleven
  minutes after a first state was registered and one minute after a second: the first
  is swept, the second kept, the new one registered, and the answer is the redirect.
\<close>

theorem auth_start_unauthenticated_witness:
  "createOAuthClient env_ok = Inr client_ok
   \<and> auth_start env_ok 660000 660001 ''0a1b''
        (st_empty\<lparr> oauthStates := [(''old'', 0), (''young'', 600000)] \<rparr>)
        (req_empty\<lparr> query := JObj [(''key'', JStr ''wrong'')] \<rparr>)
      = (Redirect 302
           (ConsentUrl client_ok
              (JObj [(''access_type'', JStr ''offline''), (''prompt'', JStr ''consent''),
                     (''scope'', SCOPES), (''state'', JStr ''0a1b'')])),
         st_empty\<lparr> oauthStates := [(''young'', 600000), (''0a1b'', 660001)] \<rparr>)"
proof -
  note c = createOAuthClient_env_ok
  show ?thesis
    using auth_start_unauthenticated [OF c, of 660000 660001 "''0a1b''"
        "st_empty\<lparr> oauthStates := [(''old'', 0), (''young'', 600000)] \<rparr>"
        "req_empty\<lparr> query := JObj [(''key'', JStr ''wrong'')] \<rparr>"] c
    by (simp add: AUTH_STATE_TTL_MS_def st_empty_def)
qed

subsection \<open>Merging token updates\<close>

text \<open>
  C1.  Let the record merged over (the client's credentials in the update listener, the
  stored file in \<^verbatim>\<open>/auth/callback\<close>) be an object, each key occurring once, that holds a
  non-empty refresh token \<open>r\<close>, and let the new token payload have no
  \<^verbatim>\<open>refresh_token\<close> member.  Then the
  merged record, as it is read back from the file, holds \<open>r\<close>; the listener writes
  exactly that record whenever it writes (the payload has an access token and the write
  succeeds) and otherwise leaves the file as it is; the callback writes exactly that
  record and answers 200, or answers 500 and leaves the file when the write fails.
\<close>

theorem refresh_token_preserved_on_update:
  assumes "distinct (map fst (own_entries old))"
      and "get_prop old ''refresh_token'' = JStr r" and "r \<noteq> []"
      and "''refresh_token'' \<notin> fst ` set (own_entries new)"
  shows "get_prop (json_roundtrip (spread2 old new)) ''refresh_token'' = JStr r
     \<and> tokens_listener (client\<lparr> credentials := old \<rparr>) new io st =
         (if truthy (get_prop new ''access_token'')
          then (case io of
                  None \<Rightarrow> st\<lparr> tokens_file := FileJson (json_roundtrip (spread2 old new)) \<rparr>
                | Some msg \<Rightarrow>
                    st\<lparr> console := console st @ [''Failed to update tokens.json: '' @ msg] \<rparr>)
          else st)
     \<and> callback_resume (st\<lparr> tokens_file := FileJson old \<rparr>) (Inr new) io =
         (case io of
            None \<Rightarrow> (Text 200 ''Authorization successful. You can now use /send.'',
                     st\<lparr> tokens_file := FileJson (json_roundtrip (spread2 old new)) \<rparr>)
          | Some msg \<Rightarrow> (Text 500 msg, st\<lparr> tokens_file := FileJson old \<rparr>))"
proof -
  have merged: "get_prop (spread2 old new) ''refresh_token'' = JStr r"
    using assms by (intro get_prop_spread2) auto
  have absent: "get_prop new ''refresh_token'' = JUndefined"
    using assms(4) by (cases new) (auto simp: map_of_eq_None_iff [symmetric])
  show ?thesis
    using merged absent assms(3)
    by (auto simp: get_prop_json_roundtrip tokens_listener_def callback_resume_def
        writeTokens_def callback_catch_def Let_def split: option.splits)
qed

text \<open>
  The property at an access-token-only refresh over credentials that hold the refresh
  token \<^verbatim>\<open>r0\<close>: the listener and the callback both store the new access token beside
  \<^verbatim>\<open>r0\<close>.
\<close>

theorem refresh_token_preserved_on_update_witness:
  "distinct (map fst (own_entries creds_old))
   \<and> get_prop creds_old ''refresh_token'' = JStr ''r0''
   \<and> ''refresh_token'' \<notin> fst ` set (own_entries tokens_new)
   \<and> json_roundtrip (spread2 creds_old tokens_new) = creds_merged
   \<and> tokens_listener (client_ok\<lparr> credentials := creds_old \<rparr>) tokens_new None st_empty
       = st_empty\<lparr> tokens_file := FileJson creds_merged \<rparr>
   \<and> callback_resume (st_empty\<lparr> tokens_file := FileJson creds_old \<rparr>) (Inr tokens_new) None
       = (Text 200 ''Authorization successful. You can now use /send.'',
          st_empty\<lparr> tokens_file := FileJson creds_merged \<rparr>)"
proof -
  have m: "json_roundtrip (spread2 creds_old tokens_new) = creds_merged"
    by (simp add: spread2_def creds_old_def tokens_new_def creds_merged_def)
  show ?thesis
    using refresh_token_preserved_on_update [of creds_old "''r0''" tokens_new client_ok None
        st_empty] m
    by (simp add: creds_old_def tokens_new_def)
qed

subsection \<open>The authorization callback\<close>

lemma oauthStates_callback_resume:
  "oauthStates (snd (callback_resume st exchange io)) = oauthStates st"
  by (simp add: callback_resume_def writeTokens_def Let_def
      split: sum.splits token_file.splits option.splits)

lemma callback_begin_unknown_state:
  assumes "get_prop (query req) ''state'' = JStr s" and "s \<noteq> []"
      and "truthy (get_prop (query req) ''code'')"
      and "\<not> truthy (get_prop (query req) ''error'')"
      and "map_get (oauthStates st) (JStr s) = None"
  shows "callback_begin env st req = (Done (Text 400 ''Invalid or expired state.''), st)"
  using assms
  by (simp add: callback_begin_def js_or_query [OF assms(1)] callback_catch_def Let_def)

lemma callback_begin_deletes:
  assumes "get_prop (query req) ''state'' = JStr s" and "s \<noteq> []"
      and "truthy (get_prop (query req) ''code'')"
      and "\<not> truthy (get_prop (query req) ''error'')"
  shows "map_get (oauthStates (snd (callback_begin env st req))) (JStr s) = None"
  using assms
  by (auto simp: callback_begin_def js_or_query [OF assms(1)] Let_def map_of_filter_key
      split: option.splits sum.splits)

lemma auth_callback_states:
  "oauthStates (snd (auth_callback env st req getToken io))
     = oauthStates (snd (callback_begin env st req))"
  by (auto simp: auth_callback_def oauthStates_callback_resume
      split: prod.splits progress.splits)

text \<open>
  C2 fails on the code.  The callback looks the state token up and never reads its
  \<^verbatim>\<open>createdAt\<close> or the clock: a token that is still in the map is accepted whatever its
  age, and the handler goes on to the code exchange.  Tokens older than the TTL leave
  the map only when some \<^verbatim>\<open>/auth/start\<close> request sweeps them.
\<close>

theorem callback_accepts_state_of_any_age:
  assumes "get_prop (query req) ''state'' = JStr s" and "s \<noteq> []"
      and "truthy (get_prop (query req) ''code'')"
      and "\<not> truthy (get_prop (query req) ''error'')"
      and "map_get (oauthStates st) (JStr s) = Some createdAt"
      and "now - createdAt > AUTH_STATE_TTL_MS"
      and "createOAuthClient env = Inr client"
      and "js_String (get_prop (query req) ''code'') = Inr c"
  shows "callback_begin env st req
           = (Await (client, c), st\<lparr> oauthStates := map_delete (oauthStates st) (JStr s) \<rparr>)"
  using assms
  by (simp add: callback_begin_def js_or_query [OF assms(1)] Let_def)

text \<open>
  The failing input: the state \<^verbatim>\<open>5f3a\<close> was registered at time 0 and the callback
  arrives one hour later.  A sweep at that time would drop the state, yet the callback
  accepts it, exchanges the code and answers 200.
\<close>

theorem callback_accepts_state_of_any_age_witness:
  "cleanupStates 3600000 (oauthStates st_old_state) = []
   \<and> callback_begin env_ok st_old_state req_callback = (Await (client_ok, ''4/abc''), st_empty)
   \<and> auth_callback env_ok st_old_state req_callback
        (\<lambda>c. Inr (JObj [(''access_token'', JStr ''a1''), (''refresh_token'', JStr ''r1'')])) None
       = (Text 200 ''Authorization successful. You can now use /send.'',
          st_empty\<lparr> tokens_file :=
            FileJson (JObj [(''access_token'', JStr ''a1''), (''refresh_token'', JStr ''r1'')]) \<rparr>)"
proof -
  have b: "callback_begin env_ok st_old_state req_callback
             = (Await (client_ok, ''4/abc''), st_empty)"
    using callback_accepts_state_of_any_age [of req_callback "''5f3a''" st_old_state 0 3600000
        env_ok client_ok "''4/abc''"] createOAuthClient_env_ok
    by (simp add: req_callback_def req_empty_def st_old_state_def st_empty_def
        AUTH_STATE_TTL_MS_def)
  show ?thesis
    using b
    by (simp add: auth_callback_def callback_resume_def writeTokens_def spread2_def
        st_old_state_def st_empty_def AUTH_STATE_TTL_MS_def)
qed

lemma callback_begin_rejected:
  assumes "truthy (get_prop (js_or (query req) (JObj [])) ''error'')
           \<or> \<not> truthy (get_prop (js_or (query req) (JObj [])) ''code'')
           \<or> \<not> truthy (get_prop (js_or (query req) (JObj [])) ''state'')"
  shows "\<exists>t. callback_begin env st req = (Done (Text 400 t), st)"
  using assms by (auto simp: callback_begin_def Let_def callback_catch_def)

text \<open>
  C3, as the code has it.  Let \<open>q\<close> be the query of a callback.  When it carries no
  \<^verbatim>\<open>error\<close> parameter, a code and the state token \<open>s\<close>, the handler leaves \<open>s\<close> out of
  the pending set by the time it suspends on the code exchange, and so also when it has
  finished, whatever the client construction, the exchange and the file write do; a
  later callback with the same state token, a code and no \<^verbatim>\<open>error\<close> parameter is then
  answered 400 \<^verbatim>\<open>Invalid or expired state.\<close> and changes nothing, whether it runs
  while the first is suspended or after it.  When the callback carries an \<^verbatim>\<open>error\<close>
  parameter, or lacks the code or the state, it is answered 400 before the lookup and
  the state is left as it was: nothing is deleted.
\<close>

theorem callback_state_single_use:
  fixes req req2 :: request
  defines "q \<equiv> js_or (query req) (JObj [])" and "q2 \<equiv> js_or (query req2) (JObj [])"
  shows "(\<not> truthy (get_prop q ''error'') \<and> truthy (get_prop q ''code'')
          \<and> get_prop q ''state'' = JStr s \<and> s \<noteq> [] \<longrightarrow>
            map_get (oauthStates (snd (callback_begin env st req))) (JStr s) = None
          \<and> map_get (oauthStates (snd (auth_callback env st req getToken io))) (JStr s) = None
          \<and> (\<not> truthy (get_prop q2 ''error'') \<and> truthy (get_prop q2 ''code'')
              \<and> get_prop q2 ''state'' = JStr s \<longrightarrow>
                callback_begin env (snd (callback_begin env st req)) req2
                  = (Done (Text 400 ''Invalid or expired state.''),
                     snd (callback_begin env st req))
              \<and> auth_callback env (snd (auth_callback env st req getToken io)) req2 getToken2 io2
                  = (Text 400 ''Invalid or expired state.'',
                     snd (auth_callback env st req getToken io))))
     \<and> (truthy (get_prop q ''error'') \<or> \<not> truthy (get_prop q ''code'')
          \<or> \<not> truthy (get_prop q ''state'') \<longrightarrow>
            (\<exists>t. callback_begin env st req = (Done (Text 400 t), st))
          \<and> (\<exists>t. auth_callback env st req getToken io = (Text 400 t, st)))"
proof (intro conjI impI)
  assume rej: "truthy (get_prop q ''error'') \<or> \<not> truthy (get_prop q ''code'')
          \<or> \<not> truthy (get_prop q ''state'')"
  then obtain t where t: "callback_begin env st req = (Done (Text 400 t), st)"
    unfolding q_def using callback_begin_rejected by blast
  then show "\<exists>t. callback_begin env st req = (Done (Text 400 t), st)" by blast
  from t show "\<exists>t. auth_callback env st req getToken io = (Text 400 t, st)"
    by (simp add: auth_callback_def)
next
  assume first: "\<not> truthy (get_prop q ''error'') \<and> truthy (get_prop q ''code'')
          \<and> get_prop q ''state'' = JStr s \<and> s \<noteq> []"
  then have qq: "q = query req"
    unfolding q_def by (auto dest: js_or_member)
  with first have f: "get_prop (query req) ''state'' = JStr s" "s \<noteq> []"
      "truthy (get_prop (query req) ''code'')" "\<not> truthy (get_prop (query req) ''error'')"
    by simp_all
  show gone: "map_get (oauthStates (snd (callback_begin env st req))) (JStr s) = None"
    using f by (rule callback_begin_deletes)
  then show gone':
    "map_get (oauthStates (snd (auth_callback env st req getToken io))) (JStr s) = None"
    by (simp add: auth_callback_states)
  assume second: "\<not> truthy (get_prop q2 ''error'') \<and> truthy (get_prop q2 ''code'')
              \<and> get_prop q2 ''state'' = JStr s"
  then have "q2 = query req2"
    unfolding q2_def by (auto dest: js_or_member)
  with second have g: "get_prop (query req2) ''state'' = JStr s"
      "truthy (get_prop (query req2) ''code'')" "\<not> truthy (get_prop (query req2) ''error'')"
    by simp_all
  have replay: "callback_begin env st2 req2 = (Done (Text 400 ''Invalid or expired state.''), st2)"
    if "map_get (oauthStates st2) (JStr s) = None" for st2
    using g(1) f(2) g(2) g(3) that by (rule callback_begin_unknown_state)
  show "callback_begin env (snd (callback_begin env st req)) req2
          = (Done (Text 400 ''Invalid or expired state.''), snd (callback_begin env st req))"
    using gone by (rule replay)
  show "auth_callback env (snd (auth_callback env st req getToken io)) req2 getToken2 io2
          = (Text 400 ''Invalid or expired state.'', snd (auth_callback env st req getToken io))"
    using replay [OF gone'] by (simp add: auth_callback_def)
qed

text \<open>
  The property at a pending state whose code exchange is rejected (the first callback
  consumes the state before it suspends, and the replay is answered 400), and at a
  callback that carries an \<^verbatim>\<open>error\<close> parameter (answered 400, the state kept).
\<close>

theorem callback_state_single_use_witness:
  "callback_begin env_ok st_old_state req_callback = (Await (client_ok, ''4/abc''), st_empty)
   \<and> callback_begin env_ok st_empty req_callback
        = (Done (Text 400 ''Invalid or expired state.''), st_empty)
   \<and> auth_callback env_ok st_old_state req_callback (\<lambda>c. Inl ''invalid_grant'') None
        = (Text 500 ''invalid_grant'', st_empty)
   \<and> auth_callback env_ok
        (snd (auth_callback env_ok st_old_state req_callback (\<lambda>c. Inl ''invalid_grant'') None))
        req_callback (\<lambda>c. Inl ''invalid_grant'') None
       = (Text 400 ''Invalid or expired state.'', st_empty)
   \<and> truthy (get_prop (js_or (query req_denied) (JObj [])) ''error'')
   \<and> (\<exists>t. callback_begin env_ok st_old_state req_denied = (Done (Text 400 t), st_old_state))"
proof -
  have b: "callback_begin env_ok st_old_state req_callback
             = (Await (client_ok, ''4/abc''), st_empty)"
    using createOAuthClient_env_ok
    by (simp add: callback_begin_def js_or_def req_callback_def req_empty_def
        st_old_state_def st_empty_def)
  show ?thesis
    using callback_state_single_use [of req_callback "''5f3a''" env_ok st_old_state
        "\<lambda>c. Inl ''invalid_grant''" None req_callback "\<lambda>c. Inl ''invalid_grant''" None]
      callback_state_single_use [of req_denied "''5f3a''" env_ok st_old_state
        "\<lambda>c. Inl ''invalid_grant''" None req_callback "\<lambda>c. Inl ''invalid_grant''" None]
      b
    by (simp add: req_callback_def req_denied_def req_empty_def js_or_def auth_callback_def
        callback_resume_def callback_catch_def)
qed

text \<open>
  C3 as stated fails: a callback that carries the pending state \<^verbatim>\<open>5f3a\<close> and an
  \<^verbatim>\<open>error\<close> parameter is answered 400 \<^verbatim>\<open>Authorization failed.\<close> without the state
  being deleted, and a second callback with the same state and a code is then accepted:
  the code is exchanged and the answer is 200.
\<close>

theorem callback_rejected_keeps_state_counterexample:
  "auth_callback env_ok st_old_state req_denied
       (\<lambda>c. Inr (JObj [(''access_token'', JStr ''a1''), (''refresh_token'', JStr ''r1'')])) None
     = (Text 400 ''Authorization failed.'', st_old_state)
   \<and> auth_callback env_ok
        (snd (auth_callback env_ok st_old_state req_denied
           (\<lambda>c. Inr (JObj [(''access_token'', JStr ''a1''), (''refresh_token'', JStr ''r1'')]))
           None))
        req_callback
        (\<lambda>c. Inr (JObj [(''access_token'', JStr ''a1''), (''refresh_token'', JStr ''r1'')])) None
     = (Text 200 ''Authorization successful. You can now use /send.'',
        st_empty\<lparr> tokens_file :=
          FileJson (JObj [(''access_token'', JStr ''a1''), (''refresh_token'', JStr ''r1'')]) \<rparr>)"
  by code_simp

subsection \<open>Normalizing headers\<close>

text \<open>
  C9, as the code has it.  \<open>normalizeHeaders\<close> is a function of its input alone.  A falsy
  input (absent, \<^verbatim>\<open>null\<close>, \<^verbatim>\<open>false\<close>, \<^verbatim>\<open>0\<close>, the empty string) gives
  \<^verbatim>\<open>undefined\<close> and no error.  A truthy input that is not an object, or is an array,
  fails with \<^verbatim>\<open>headers must be an object\<close>.  An object is not checked for flatness:
  the result drops each entry whose value is \<^verbatim>\<open>null\<close> or \<^verbatim>\<open>undefined\<close> and holds
  \<^verbatim>\<open>String(value)\<close> for every other entry, in order, nested objects and arrays
  included.  (Stated for an object with no key \<^verbatim>\<open>__proto__\<close> and whose values all
  convert to a string.)
\<close>

theorem normalizeHeaders_cases:
  "(\<not> truthy h \<longrightarrow> normalizeHeaders h = Inr JUndefined)
   \<and> (truthy h \<and> (typeof h \<noteq> ''object'' \<or> isArray h) \<longrightarrow>
        normalizeHeaders h = Inl (ValidationError ''headers must be an object''))
   \<and> (distinct (map fst ms) \<and> ''__proto__'' \<notin> fst ` set ms
        \<and> (\<forall>v \<in> snd ` set ms. \<not> isl (js_String v)) \<longrightarrow>
        normalizeHeaders (JObj ms) =
          Inr (JObj (map (\<lambda>(k, v). (k, JStr (projr (js_String v))))
                         (filter (\<lambda>(k, v). v \<noteq> JUndefined \<and> v \<noteq> JNull) ms))))"
proof -
  have "normalizeHeaders (JObj ms) =
          Inr (JObj (map (\<lambda>(k, v). (k, JStr (projr (js_String v))))
                         (filter (\<lambda>(k, v). v \<noteq> JUndefined \<and> v \<noteq> JNull) ms)))"
    if "distinct (map fst ms)" "''__proto__'' \<notin> fst ` set ms"
       "\<forall>v \<in> snd ` set ms. \<not> isl (js_String v)"
    using headers_loop_distinct [of ms "[]"] that by (simp add: normalizeHeaders_def)
  then show ?thesis
    by (auto simp: normalizeHeaders_def)
qed

text \<open>
  C9 as stated fails: a header map that is not flat (one value is itself an object) is
  accepted, and the nested object is stringified.
\<close>

theorem normalizeHeaders_nested_counterexample:
  "normalizeHeaders (JObj [(''X-Meta'', JObj [(''a'', JNum ''1'')])])
     = Inr (JObj [(''X-Meta'', JStr ''[object Object]'')])"
  by (simp add: normalizeHeaders_def assign_string_def)

text \<open>
  The header property at the empty string, at a non-empty string, and at an object with
  a string, a \<^verbatim>\<open>null\<close>, a number and an array among its values.
\<close>

theorem normalizeHeaders_cases_witness:
  "\<not> truthy (JStr '''') \<and> normalizeHeaders (JStr '''') = Inr JUndefined
   \<and> truthy (JStr ''abc'') \<and> typeof (JStr ''abc'') \<noteq> ''object''
   \<and> normalizeHeaders (JStr ''abc'') = Inl (ValidationError ''headers must be an object'')
   \<and> normalizeHeaders (JObj [(''X-Job-Id'', JStr ''daily''), (''X-Null'', JNull),
         (''X-Count'', JNum ''3''), (''X-List'', JArr [JNum ''1'', JNull, JStr ''b''])])
       = Inr (JObj [(''X-Job-Id'', JStr ''daily''), (''X-Count'', JStr ''3''),
                    (''X-List'', JStr ''1,,b'')])"
  using normalizeHeaders_cases [of "JStr ''''" "[]"] normalizeHeaders_cases [of "JStr ''abc''" "[]"]
    normalizeHeaders_cases [of JNull "[(''X-Job-Id'', JStr ''daily''), (''X-Null'', JNull),
         (''X-Count'', JNum ''3''), (''X-List'', JArr [JNum ''1'', JNull, JStr ''b''])]"]
  by simp

text \<open>
  The two kinds of object the header property leaves aside: an entry keyed
  \<^verbatim>\<open>__proto__\<close> is not carried over, and a value with a member \<^verbatim>\<open>toString\<close> of its
  own makes the conversion throw, which is not a validation error.
\<close>

lemma normalizeHeaders_left_aside:
  "normalizeHeaders (JObj [(''__proto__'', JStr ''x''), (''A'', JStr ''1'')])
     = Inr (JObj [(''A'', JStr ''1'')])
   \<and> normalizeHeaders (JObj [(''B'', JObj [(''toString'', JNum ''1'')])])
     = Inl (TypeError ''Cannot convert object to primitive value'')"
  by (simp add: normalizeHeaders_def assign_string_def)

subsection \<open>Normalizing attachments\<close>

text \<open>
  C7, as the code has it.  An entry that is falsy or not of type object fails with the
  must-be-an-object error.  For an entry that is an object (an array counts as one): a
  falsy filename fails with the missing-filename error; otherwise the content is the
  payload of a data URI in \<^verbatim>\<open>content\<close> (encoding \<^verbatim>\<open>base64\<close>), else a truthy
  \<^verbatim>\<open>content\<close> as it is (encoding as supplied), else a truthy \<^verbatim>\<open>contentBase64\<close>,
  whose encoding is the supplied encoding when one is given and \<^verbatim>\<open>base64\<close> only by
  default; with none of the three the entry fails with the missing-content error.  No
  combination of sources is an error.
\<close>

theorem attachment_content_precedence:
  "(\<not> truthy a \<or> typeof a \<noteq> ''object'' \<longrightarrow>
      normalizeAttachment i a =
        Inl (ValidationError (''attachments['' @ show_nat i @ ''] must be an object'')))
   \<and> (truthy a \<and> typeof a = ''object'' \<longrightarrow>
      normalizeAttachment i a =
     (if \<not> truthy (get_prop a ''filename'')
      then Inl (ValidationError (''attachments['' @ show_nat i @ ''].filename is required''))
      else case parseDataUrl (get_prop a ''content'') of
             Some (mime, payload) \<Rightarrow>
               Inr (normalized_attachment (get_prop a ''filename'') (JStr payload) (JStr ''base64'')
                      (js_or (get_prop a ''contentType'') (JStr mime))
                      (get_prop a ''cid'') (get_prop a ''contentDisposition''))
           | None \<Rightarrow>
               if truthy (get_prop a ''content'')
               then Inr (normalized_attachment (get_prop a ''filename'') (get_prop a ''content'')
                           (get_prop a ''encoding'') (get_prop a ''contentType'')
                           (get_prop a ''cid'') (get_prop a ''contentDisposition''))
               else if truthy (get_prop a ''contentBase64'')
               then Inr (normalized_attachment (get_prop a ''filename'')
                           (get_prop a ''contentBase64'')
                           (js_or (get_prop a ''encoding'') (JStr ''base64''))
                           (get_prop a ''contentType'')
                           (get_prop a ''cid'') (get_prop a ''contentDisposition''))
               else Inl (ValidationError
                      (''attachments['' @ show_nat i @ ''].content or contentBase64 is required''))))"
proof (intro conjI impI)
  assume "\<not> truthy a \<or> typeof a \<noteq> ''object''"
  then show "normalizeAttachment i a =
        Inl (ValidationError (''attachments['' @ show_nat i @ ''] must be an object''))"
    by (auto simp: normalizeAttachment_def)
next
  assume obj: "truthy a \<and> typeof a = ''object''"
  show "normalizeAttachment i a =
     (if \<not> truthy (get_prop a ''filename'')
      then Inl (ValidationError (''attachments['' @ show_nat i @ ''].filename is required''))
      else case parseDataUrl (get_prop a ''content'') of
             Some (mime, payload) \<Rightarrow>
               Inr (normalized_attachment (get_prop a ''filename'') (JStr payload) (JStr ''base64'')
                      (js_or (get_prop a ''contentType'') (JStr mime))
                      (get_prop a ''cid'') (get_prop a ''contentDisposition''))
           | None \<Rightarrow>
               if truthy (get_prop a ''content'')
               then Inr (normalized_attachment (get_prop a ''filename'') (get_prop a ''content'')
                           (get_prop a ''encoding'') (get_prop a ''contentType'')
                           (get_prop a ''cid'') (get_prop a ''contentDisposition''))
               else if truthy (get_prop a ''contentBase64'')
               then Inr (normalized_attachment (get_prop a ''filename'')
                           (get_prop a ''contentBase64'')
                           (js_or (get_prop a ''encoding'') (JStr ''base64''))
                           (get_prop a ''contentType'')
                           (get_prop a ''cid'') (get_prop a ''contentDisposition''))
               else Inl (ValidationError
                      (''attachments['' @ show_nat i @ ''].content or contentBase64 is required'')))"
  proof (cases "parseDataUrl (get_prop a ''content'')")
    case None
    with obj show ?thesis
      by (simp add: normalizeAttachment_def Let_def)
  next
    case (Some d)
    obtain mime payload where d: "d = (mime, payload)" by (cases d)
    with Some have "payload \<noteq> []" by (auto dest: parseDataUrl_nonempty)
    with obj Some d show ?thesis
      by (simp add: normalizeAttachment_def Let_def)
  qed
qed

text \<open>
  The precedence at an entry with both a plain \<^verbatim>\<open>content\<close> and a
  \<^verbatim>\<open>contentBase64\<close> (the content wins and nothing fails), at a data URI, at an entry
  with no content, at an entry with no filename, and at two entries that are not
  objects (a string and \<^verbatim>\<open>null\<close>).
\<close>

theorem attachment_content_precedence_witness:
  "truthy attachment_both \<and> typeof attachment_both = ''object''
   \<and> normalizeAttachment 0 attachment_both
       = Inr (JObj [(''filename'', JStr ''note.txt''), (''content'', JStr ''Hello'')])
   \<and> normalizeAttachment 0 attachment_png
       = Inr (JObj [(''filename'', JStr ''logo.png''), (''content'', JStr ''AAAA''),
                    (''encoding'', JStr ''base64''), (''contentType'', JStr ''image/png'')])
   \<and> normalizeAttachment 2 (JObj [(''filename'', JStr ''empty.txt'')])
       = Inl (ValidationError ''attachments[2].content or contentBase64 is required'')
   \<and> normalizeAttachment 1 (JObj [(''content'', JStr ''Hello'')])
       = Inl (ValidationError ''attachments[1].filename is required'')
   \<and> typeof (JStr ''note.txt'') \<noteq> ''object''
   \<and> normalizeAttachment 3 (JStr ''note.txt'')
       = Inl (ValidationError ''attachments[3] must be an object'')
   \<and> \<not> truthy JNull
   \<and> normalizeAttachment 0 JNull
       = Inl (ValidationError ''attachments[0] must be an object'')"
proof -
  have p: "match_data_url ''data:image/png;base64,AAAA'' = Some (''image/png'', ''AAAA'')"
    using match_data_url_form [of "''image/png''" "''AAAA''"] by simp
  have q: "match_data_url ''Hello'' = None"
    by (simp add: match_data_url_def ascii_lower_def)
  have n: "show_nat 0 = ''0''" "show_nat (Suc 0) = ''1''" "show_nat 2 = ''2''" "show_nat 3 = ''3''"
    by code_simp+
  show ?thesis
    using attachment_content_precedence [of attachment_both 0]
      attachment_content_precedence [of attachment_png 0]
      attachment_content_precedence [of "JObj [(''filename'', JStr ''empty.txt'')]" 2]
      attachment_content_precedence [of "JObj [(''content'', JStr ''Hello'')]" 1]
      attachment_content_precedence [of "JStr ''note.txt''" 3]
      attachment_content_precedence [of JNull 0]
    by (simp add: attachment_both_def attachment_png_def p q n normalized_attachment_def js_or_def)
qed

text \<open>
  C7 as stated fails: with content taken from the dedicated base64 field and an encoding
  supplied in the entry, the encoding is the supplied one, not \<^verbatim>\<open>base64\<close>.
\<close>

theorem attachment_explicit_encoding_counterexample:
  "normalizeAttachment 0
     (JObj [(''filename'', JStr ''note.txt''), (''contentBase64'', JStr ''SGk=''),
            (''encoding'', JStr ''utf8'')])
   = Inr (JObj [(''filename'', JStr ''note.txt''), (''content'', JStr ''SGk=''),
                (''encoding'', JStr ''utf8'')])"
  by (simp add: normalizeAttachment_def normalized_attachment_def js_or_def)

text \<open>
  C6, as the code has it.  Take an entry with a filename whose \<^verbatim>\<open>content\<close> is a string
  \<open>s\<close>.  When \<open>s\<close> is \<^verbatim>\<open>data:<mime>;base64,<payload>\<close>, with \<^verbatim>\<open>data:\<close> and
  \<^verbatim>\<open>;base64,\<close> in any letter case, the mime type non-empty and free of \<^verbatim>\<open>;\<close>, and
  the payload non-empty and free of line terminators, the normalized content is the
  payload, the encoding is \<^verbatim>\<open>base64\<close>, and the content type is the entry's own
  \<^verbatim>\<open>contentType\<close> when that is truthy and the mime type of the URI otherwise.  When
  \<open>s\<close> is non-empty and not of that form, it is not treated as a data URI: the normalized
  content is \<open>s\<close> itself, and the encoding and the content type are the entry's own,
  each present only when truthy.
\<close>

theorem data_uri_attachment:
  assumes "truthy (get_prop a ''filename'')" and "get_prop a ''content'' = JStr s"
  shows "(s = p @ mime @ m @ payload
            \<and> map ascii_lower p = ''data:'' \<and> map ascii_lower m = '';base64,''
            \<and> mime \<noteq> [] \<and> CHR '';'' \<notin> set mime
            \<and> payload \<noteq> [] \<and> \<not> has_line_terminator payload \<longrightarrow>
           (\<exists>out. normalizeAttachment i a = Inr out
              \<and> get_prop out ''content'' = JStr payload
              \<and> get_prop out ''encoding'' = JStr ''base64''
              \<and> get_prop out ''contentType'' =
                  (if truthy (get_prop a ''contentType'') then get_prop a ''contentType''
                   else JStr mime)))
     \<and> (s \<noteq> []
          \<and> \<not> (\<exists>p mime m payload. s = p @ mime @ m @ payload
                  \<and> map ascii_lower p = ''data:'' \<and> map ascii_lower m = '';base64,''
                  \<and> mime \<noteq> [] \<and> CHR '';'' \<notin> set mime
                  \<and> payload \<noteq> [] \<and> \<not> has_line_terminator payload) \<longrightarrow>
           (\<exists>out. normalizeAttachment i a = Inr out
              \<and> get_prop out ''content'' = JStr s
              \<and> get_prop out ''encoding'' =
                  (if truthy (get_prop a ''encoding'') then get_prop a ''encoding''
                   else JUndefined)
              \<and> get_prop out ''contentType'' =
                  (if truthy (get_prop a ''contentType'') then get_prop a ''contentType''
                   else JUndefined)))"
proof (intro conjI impI)
  from assms(1) obtain ms where a: "a = JObj ms" by (cases a) auto
  {
    assume form: "s = p @ mime @ m @ payload
            \<and> map ascii_lower p = ''data:'' \<and> map ascii_lower m = '';base64,''
            \<and> mime \<noteq> [] \<and> CHR '';'' \<notin> set mime
            \<and> payload \<noteq> [] \<and> \<not> has_line_terminator payload"
    then have ne: "mime \<noteq> []" "payload \<noteq> []" by simp_all
    from form have "match_data_url s = Some (mime, payload)"
      by (elim conjE, hypsubst) (rule match_data_url_ci; assumption)
    then have p: "parseDataUrl (get_prop a ''content'') = Some (mime, payload)"
      using assms(2) by simp
    have "normalizeAttachment i a =
            Inr (normalized_attachment (get_prop a ''filename'') (JStr payload) (JStr ''base64'')
                   (js_or (get_prop a ''contentType'') (JStr mime))
                   (get_prop a ''cid'') (get_prop a ''contentDisposition''))"
      using assms(1) ne p a by (simp add: normalizeAttachment_def Let_def)
    moreover have "truthy (js_or (get_prop a ''contentType'') (JStr mime))"
      using ne by (simp add: js_or_def)
    ultimately show "\<exists>out. normalizeAttachment i a = Inr out
              \<and> get_prop out ''content'' = JStr payload
              \<and> get_prop out ''encoding'' = JStr ''base64''
              \<and> get_prop out ''contentType'' =
                  (if truthy (get_prop a ''contentType'') then get_prop a ''contentType''
                   else JStr mime)"
      by (simp add: normalized_attachment_def js_or_def)
  }
  {
    assume n: "s \<noteq> []
          \<and> \<not> (\<exists>p mime m payload. s = p @ mime @ m @ payload
                  \<and> map ascii_lower p = ''data:'' \<and> map ascii_lower m = '';base64,''
                  \<and> mime \<noteq> [] \<and> CHR '';'' \<notin> set mime
                  \<and> payload \<noteq> [] \<and> \<not> has_line_terminator payload)"
    then have "match_data_url s = None"
      by (intro match_data_url_None) simp
    then have p: "parseDataUrl (get_prop a ''content'') = None"
      using assms(2) by simp
    from n have s: "s \<noteq> []" by simp
    have "normalizeAttachment i a =
            Inr (normalized_attachment (get_prop a ''filename'') (JStr s)
                   (get_prop a ''encoding'') (get_prop a ''contentType'')
                   (get_prop a ''cid'') (get_prop a ''contentDisposition''))"
      using assms s p a by (simp add: normalizeAttachment_def Let_def)
    then show "\<exists>out. normalizeAttachment i a = Inr out
              \<and> get_prop out ''content'' = JStr s
              \<and> get_prop out ''encoding'' =
                  (if truthy (get_prop a ''encoding'') then get_prop a ''encoding''
                   else JUndefined)
              \<and> get_prop out ''contentType'' =
                  (if truthy (get_prop a ''contentType'') then get_prop a ''contentType''
                   else JUndefined)"
      by (simp add: normalized_attachment_def)
  }
qed

text \<open>
  The data URI property at \<^verbatim>\<open>DATA:image/png;BASE64,AAAA\<close> in an entry that supplies
  another encoding, at \<^verbatim>\<open>data:image/png;base64,AAAA\<close> in an entry that supplies a
  content type, and at a URI whose media type carries a parameter, which is kept whole.
\<close>

theorem data_uri_attachment_witness:
  "map ascii_lower ''DATA:'' = ''data:'' \<and> map ascii_lower '';BASE64,'' = '';base64,''
   \<and> (\<exists>out. normalizeAttachment 0 attachment_png_upper = Inr out
        \<and> get_prop out ''content'' = JStr ''AAAA''
        \<and> get_prop out ''encoding'' = JStr ''base64''
        \<and> get_prop out ''contentType'' = JStr ''image/png'')
   \<and> (\<exists>out. normalizeAttachment 0 attachment_png_typed = Inr out
        \<and> get_prop out ''content'' = JStr ''AAAA''
        \<and> get_prop out ''encoding'' = JStr ''base64''
        \<and> get_prop out ''contentType'' = JStr ''application/octet-stream'')
   \<and> (\<exists>out. normalizeAttachment 0 attachment_charset = Inr out
        \<and> get_prop out ''content'' = JStr ''data:text/plain;charset=utf-8;base64,SGk=''
        \<and> get_prop out ''encoding'' = JStr ''utf8''
        \<and> get_prop out ''contentType'' = JUndefined)"
proof -
  have up: "map ascii_lower ''DATA:'' = ''data:''" "map ascii_lower '';BASE64,'' = '';base64,''"
    by code_simp+
  have "match_data_url ''data:text/plain;charset=utf-8;base64,SGk='' = None"
    by (simp add: match_data_url_def ascii_lower_def)
  note n = match_data_url_None_decompose [OF this]
  have upper: "\<exists>out. normalizeAttachment 0 attachment_png_upper = Inr out
        \<and> get_prop out ''content'' = JStr ''AAAA''
        \<and> get_prop out ''encoding'' = JStr ''base64''
        \<and> get_prop out ''contentType'' = JStr ''image/png''"
    using data_uri_attachment [of attachment_png_upper "''DATA:image/png;BASE64,AAAA''"
        "''DATA:''" "''image/png''" "'';BASE64,''" "''AAAA''" 0] up
    by (simp add: attachment_png_upper_def)
  have typed: "\<exists>out. normalizeAttachment 0 attachment_png_typed = Inr out
        \<and> get_prop out ''content'' = JStr ''AAAA''
        \<and> get_prop out ''encoding'' = JStr ''base64''
        \<and> get_prop out ''contentType'' = JStr ''application/octet-stream''"
    using data_uri_attachment [of attachment_png_typed "''data:image/png;base64,AAAA''"
        "''data:''" "''image/png''" "'';base64,''" "''AAAA''" 0]
      ascii_lower_data ascii_lower_base64
    by (simp add: attachment_png_typed_def)
  have charset: "\<exists>out. normalizeAttachment 0 attachment_charset = Inr out
        \<and> get_prop out ''content'' = JStr ''data:text/plain;charset=utf-8;base64,SGk=''
        \<and> get_prop out ''encoding'' = JStr ''utf8''
        \<and> get_prop out ''contentType'' = JUndefined"
  proof -
    have f: "truthy (get_prop attachment_charset ''filename'')"
      and c: "get_prop attachment_charset ''content''
                = JStr ''data:text/plain;charset=utf-8;base64,SGk=''"
      and e: "get_prop attachment_charset ''encoding'' = JStr ''utf8''"
             "get_prop attachment_charset ''contentType'' = JUndefined"
      by (simp_all add: attachment_charset_def)
    have ne: "''data:text/plain;charset=utf-8;base64,SGk='' \<noteq> []" by simp
    from data_uri_attachment [OF f c, of "[]" "[]" "[]" "[]" 0] ne n
    show ?thesis unfolding e by (simp only: simp_thms truthy.simps if_True if_False list.simps)
  qed
  show ?thesis
    using up upper typed charset by (intro conjI)
qed

text \<open>
  C6 as stated fails: a base64 data URI whose media type carries a parameter is not
  recognised.  Its text is kept whole as the content, with no encoding and no content
  type.
\<close>

theorem data_uri_with_parameter_counterexample:
  "normalizeAttachment 0
     (JObj [(''filename'', JStr ''note.txt''),
            (''content'', JStr ''data:text/plain;charset=utf-8;base64,SGk='')])
   = Inr (JObj [(''filename'', JStr ''note.txt''),
                (''content'', JStr ''data:text/plain;charset=utf-8;base64,SGk='')])"
  by (simp add: normalizeAttachment_def normalized_attachment_def match_data_url_def
      ascii_lower_def)

subsection \<open>The send pipeline\<close>

text \<open>
  C5, as the code has it.  For a request with the correct API key whose headers and
  attachments normalize without error: when the recipient or the subject is falsy, or
  the plain body and the HTML body are falsy and the normalized attachment list is
  absent or empty, the answer is 400 with exactly the body
  \<^verbatim>\<open>{"error":"Require: to, subject, and text/html or attachments"}\<close>, the state is
  unchanged and nothing else is done.  The two normalizers run first: when one of them
  raises a validation error, the 400 carries that error's message instead.
\<close>

theorem send_requires_fields:
  assumes key: "header req ''x-api-key'' = API_KEY env"
  defines "b \<equiv> js_or (body req) (JObj [])"
  shows "(normalizeHeaders (get_prop b ''headers'') = Inr nh
          \<and> normalizeAttachments (get_prop b ''attachments'') = Inr na
          \<and> (\<not> truthy (get_prop b ''to'') \<or> \<not> truthy (get_prop b ''subject'')
              \<or> (\<not> truthy (get_prop b ''text'') \<and> \<not> truthy (get_prop b ''html'')
                  \<and> \<not> (isArray na \<and> na \<noteq> JArr []))) \<longrightarrow>
          post_send env st req build messages_send =
            (Json 400 (JObj [(''error'',
                JStr ''Require: to, subject, and text/html or attachments'')]), st, []))
     \<and> (normalizeHeaders (get_prop b ''headers'') = Inl (ValidationError m) \<longrightarrow>
          post_send env st req build messages_send
            = (Json 400 (JObj [(''error'', JStr m)]), st, []))
     \<and> (normalizeHeaders (get_prop b ''headers'') = Inr nh
          \<and> normalizeAttachments (get_prop b ''attachments'') = Inl (ValidationError m) \<longrightarrow>
          post_send env st req build messages_send
            = (Json 400 (JObj [(''error'', JStr m)]), st, []))"
  using key unfolding b_def
  by (auto simp: post_send_def Let_def send_catch_def)

text \<open>
  The required-fields property at a request with a recipient, a subject and an empty
  attachment list, and neither a plain nor an HTML body.
\<close>

theorem send_requires_fields_witness:
  "header req_no_body_parts ''x-api-key'' = API_KEY env_ok
   \<and> normalizeHeaders (get_prop (body req_no_body_parts) ''headers'') = Inr JUndefined
   \<and> normalizeAttachments (get_prop (body req_no_body_parts) ''attachments'') = Inr (JArr [])
   \<and> \<not> truthy (get_prop (body req_no_body_parts) ''text'')
   \<and> \<not> truthy (get_prop (body req_no_body_parts) ''html'')
   \<and> post_send env_ok st_authorized req_no_body_parts build_ok send_ok
       = (Json 400 (JObj [(''error'',
            JStr ''Require: to, subject, and text/html or attachments'')]), st_authorized, [])"
proof -
  have k: "header req_no_body_parts ''x-api-key'' = API_KEY env_ok"
    by (simp add: header_def req_no_body_parts_def env_ok_def)
  have b: "js_or (body req_no_body_parts) (JObj []) = body req_no_body_parts"
    by (simp add: js_or_def req_no_body_parts_def)
  have h: "normalizeHeaders (get_prop (body req_no_body_parts) ''headers'') = Inr JUndefined"
    by (simp add: normalizeHeaders_def req_no_body_parts_def)
  have a: "normalizeAttachments (get_prop (body req_no_body_parts) ''attachments'') = Inr (JArr [])"
    by (simp add: normalizeAttachments_def req_no_body_parts_def)
  have t: "\<not> truthy (get_prop (body req_no_body_parts) ''text'')"
          "\<not> truthy (get_prop (body req_no_body_parts) ''html'')"
    by (simp_all add: req_no_body_parts_def)
  show ?thesis
    using send_requires_fields [OF k, of JUndefined "JArr []" st_authorized build_ok send_ok]
      k h a t
    by (simp add: b)
qed

text \<open>
  C5 as stated fails: a request with the correct key and no recipient, whose
  \<^verbatim>\<open>headers\<close> member is a string, is answered 400 with the headers error, not with
  the required-fields body.
\<close>

theorem send_invalid_headers_counterexample:
  "header req_no_recipient ''x-api-key'' = API_KEY env_ok
   \<and> get_prop (body req_no_recipient) ''to'' = JUndefined
   \<and> post_send env_ok st_empty req_no_recipient (\<lambda>mail. Inr []) (\<lambda>auth raw. Inr JNull)
       = (Json 400 (JObj [(''error'', JStr ''headers must be an object'')]), st_empty, [])"
  by (simp add: post_send_def header_def req_no_recipient_def env_ok_def js_or_def
      normalizeHeaders_def send_catch_def)

text \<open>
  C8.  In every run of \<^verbatim>\<open>POST /send\<close> the events are a prefix of: session
  acquisition, composition, provider send.  A wrong API key is answered 401 with no
  event.  Every answer with status 401 or 400 comes with no event at all and an
  unchanged state.  The provider send occurs only after the key check, both
  normalizers, the required-field check, the session acquisition and the composition
  have succeeded, and it is the last event.
\<close>

theorem send_steps_in_order:
  assumes "post_send env st req build messages_send = (resp, st', trace)"
  defines "b \<equiv> js_or (body req) (JObj [])"
  shows "(trace = [] \<or> trace = [AcquireSession]
          \<or> (\<exists>mail. trace = [AcquireSession, Compose mail])
          \<or> (\<exists>mail raw. trace = [AcquireSession, Compose mail, ProviderSend ''me'' raw]))
     \<and> (header req ''x-api-key'' \<noteq> API_KEY env \<longrightarrow>
          resp = Json 401 (JObj [(''error'', JStr ''Unauthorized'')]) \<and> st' = st \<and> trace = [])
     \<and> (status resp = 401 \<or> status resp = 400 \<longrightarrow> trace = [] \<and> st' = st)
     \<and> (\<forall>u raw. ProviderSend u raw \<in> set trace \<longrightarrow>
          header req ''x-api-key'' = API_KEY env
          \<and> (\<exists>nh. normalizeHeaders (get_prop b ''headers'') = Inr nh)
          \<and> (\<exists>na. normalizeAttachments (get_prop b ''attachments'') = Inr na)
          \<and> truthy (get_prop b ''to'') \<and> truthy (get_prop b ''subject'')
          \<and> (\<exists>auth. fst (loadOAuthClient env st) = Inr auth)
          \<and> (\<exists>mail mime. build mail = Inr mime \<and> raw = base64UrlEncode mime
                \<and> trace = [AcquireSession, Compose mail, ProviderSend ''me'' raw]))"
  using assms(1) unfolding b_def
  by (auto simp: post_send_def Let_def send_catch_def dest: loadOAuthClient_error
      split: if_splits sum.splits prod.splits)

text \<open>
  The pipeline at a valid request on an authorized installation (the three events in
  order, ending with the provider send of the encoded document) and at the same request
  with a wrong key (401, no event).
\<close>

theorem send_steps_in_order_witness:
  "post_send env_ok st_authorized req_hello build_ok send_ok
     = (Json 200 (JObj [(''id'', JStr ''18c''), (''threadId'', JStr ''18d'')]),
        st_authorized\<lparr> cachedAuthClient := Some (client_ok\<lparr> credentials := creds_old \<rparr>) \<rparr>,
        [AcquireSession, Compose mail_hello, ProviderSend ''me'' ''TUlNRQ''])
   \<and> header req_hello ''x-api-key'' = API_KEY env_ok
   \<and> (\<exists>nh. normalizeHeaders (get_prop (js_or (body req_hello) (JObj [])) ''headers'') = Inr nh)
   \<and> (\<exists>auth. fst (loadOAuthClient env_ok st_authorized) = Inr auth)
   \<and> (\<exists>mail mime. build_ok mail = Inr mime \<and> ''TUlNRQ'' = base64UrlEncode mime)
   \<and> post_send env_ok st_authorized (req_hello\<lparr> raw_headers := [(''x-api-key'', ''wrong'')] \<rparr>)
        build_ok send_ok
       = (Json 401 (JObj [(''error'', JStr ''Unauthorized'')]), st_authorized, [])"
proof -
  have run: "post_send env_ok st_authorized req_hello build_ok send_ok
     = (Json 200 (JObj [(''id'', JStr ''18c''), (''threadId'', JStr ''18d'')]),
        st_authorized\<lparr> cachedAuthClient := Some (client_ok\<lparr> credentials := creds_old \<rparr>) \<rparr>,
        [AcquireSession, Compose mail_hello, ProviderSend ''me'' ''TUlNRQ''])"
    by code_simp
  have denied: "post_send env_ok st_authorized
        (req_hello\<lparr> raw_headers := [(''x-api-key'', ''wrong'')] \<rparr>) build_ok send_ok
       = (Json 401 (JObj [(''error'', JStr ''Unauthorized'')]), st_authorized, [])"
    by code_simp
  show ?thesis
    using send_steps_in_order [OF run] send_steps_in_order [OF denied] run denied
    by auto
qed

end
